theory Spec2Isabelle
  imports Main
begin

section \<open>Data model\<close>

text \<open>
  The chat subsystem of the server: \<^verbatim>\<open>services/chat.service.ts\<close> (the store operations)
  and the chat controller (request validation, the five routes and the socket handlers).
  The document database and the realtime transport are outside the repository; they are
  modelled as an explicit state that every operation takes and returns.

  An \<^verbatim>\<open>ObjectId\<close> is written by the 24 lower-case hexadecimal digits that its \<^verbatim>\<open>toString()\<close>
  returns. It is a type of its own: a string of a request becomes an identifier only
  through the cast of the schema (\<open>castObjectId\<close> below).
\<close>

datatype oid = ObjectId string

text \<open>
  A value of a request body as \<^verbatim>\<open>express.json()\<close> hands it to a route. The validators
  test \<^verbatim>\<open>typeof\<close> and \<^verbatim>\<open>Array.isArray\<close> at run time, so the model keeps the dynamic type.
  \<open>JUndefined\<close> is an absent field. Numbers are kept as integers: the code only tests
  them for truthiness. A string is the UTF-8 encoding of its text.
\<close>

datatype jsval =
    JUndefined
  | JNull
  | JBool bool
  | JNum int
  | JStr string
  | JArr "jsval list"
  | JObj "(string \<times> jsval) list"

text \<open>An awaited call either yields a value or rejects (throws).\<close>

datatype 'a outcome = Returns 'a | Throws

text \<open>
  The result unions \<^verbatim>\<open>ChatResponse\<close> and \<^verbatim>\<open>MessageResponse\<close>: a document, or the object
  \<^verbatim>\<open>{ error: string }\<close>.
\<close>

datatype 'a response = Err string | Doc 'a

record user =
  user_id :: oid
  username :: string

text \<open>
  \<^verbatim>\<open>Message\<close>: \<open>msgDateTime\<close> is a time value in milliseconds, \<open>None\<close> when the field
  is absent; \<open>msgType\<close> is the field \<^verbatim>\<open>type\<close>.
\<close>

record message =
  msg :: string
  msgFrom :: string
  msgDateTime :: "int option"
  msgType :: string

text \<open>A stored message is the pair of its \<^verbatim>\<open>_id\<close> and its fields.\<close>

type_synonym message_doc = "oid \<times> message"

text \<open>
  \<^verbatim>\<open>Chat\<close>: the arrays \<open>participants\<close> and \<open>messages\<close> hold identifiers. The timestamps
  \<^verbatim>\<open>createdAt\<close> and \<^verbatim>\<open>updatedAt\<close> are maintained by the schema, which no operation
  modelled here reads; they are left out.
\<close>

record chat =
  chat_id :: oid
  participants :: "oid list"
  messages :: "oid list"

text \<open>\<^verbatim>\<open>CreateChatPayload\<close>, the argument of \<open>saveChat\<close>; \<open>None\<close> is an absent \<^verbatim>\<open>messages\<close>.\<close>

record create_chat_payload =
  cp_participants :: "string list"
  cp_messages :: "message list option"

text \<open>
  The calls on the database driver, one tag for each call site of the service. \<open>MessageSave i\<close>
  is the \<^verbatim>\<open>save()\<close> of the \<open>i\<close>-th message of a request.
\<close>

datatype db_op =
    UserFind
  | UserFindOne
  | MessageSave nat
  | ChatCreate
  | ChatFindByIdAndUpdate
  | ChatFindById
  | ChatFind

text \<open>
  The payload of the socket event \<^verbatim>\<open>chatUpdate\<close> is \<^verbatim>\<open>{ chat, type }\<close>. The value in \<open>chat\<close> is
  whatever hydration produced: the hydrated chat (of a type \<open>'h\<close> the routes never inspect),
  an \<^verbatim>\<open>{ error }\<close> object, or \<^verbatim>\<open>null\<close>.
\<close>

datatype 'h populated = Hydrated 'h | ErrorObj string | Null

record 'h chat_update =
  upd_chat :: "'h populated"
  upd_type :: string

text \<open>
  An event the server socket emitted: its name, its payload, and the connections it was
  delivered to.
\<close>

record 'h emitted_event =
  ev_to :: "nat list"
  ev_name :: string
  ev_data :: "'h chat_update"

text \<open>
  The world a request runs in: the three collections, the counter from which fresh
  identifiers are drawn, the log of the service's driver calls (reads included), the socket connections
  with the rooms each has joined, and the events emitted so far.
\<close>

record 'h state =
  users :: "user list"
  msgs :: "message_doc list"
  chats :: "chat list"
  next_oid :: nat
  oplog :: "db_op list"
  conns :: "(nat \<times> string list) list"
  emitted :: "'h emitted_event list"

text \<open>
  What the code takes from its surroundings:
  \<^item> \<open>fails\<close>: which driver calls reject during the request (connection loss, a schema
    validation error, a cast error); the services catch every rejection;
  \<^item> \<open>populateDocument\<close>: \<^verbatim>\<open>utils/database.util\<close>, which is not among the sources; the
    routes give it the \<^verbatim>\<open>toString()\<close> of a stored \<^verbatim>\<open>_id\<close>, here that identifier;
  \<^item> \<open>findByIdPopulate\<close>: the query \<^verbatim>\<open>ChatModel.findById(id).populate(..).populate(..)\<close> of
    \<open>createChatRoute\<close>;
  \<^item> \<open>date_value\<close>: the time value of \<^verbatim>\<open>new Date(v)\<close>, \<open>None\<close> for \<^verbatim>\<open>NaN\<close>; on a string this is
    \<^verbatim>\<open>Date.parse\<close>;
  \<^item> \<open>isValidObjectId\<close>: mongoose's test on a string;
  \<^item> \<open>cast_other\<close>: what the cast to \<^verbatim>\<open>ObjectId\<close> makes of a string that is not 24
    hexadecimal digits (a string of 12 characters, in some versions of the driver);
    \<open>None\<close> is a \<^verbatim>\<open>CastError\<close>;
  \<^item> \<open>now\<close>: the time value of \<^verbatim>\<open>new Date()\<close>.
\<close>

record 'h env =
  fails :: "db_op \<Rightarrow> bool"
  populateDocument :: "'h state \<Rightarrow> oid \<Rightarrow> 'h populated outcome"
  findByIdPopulate :: "'h state \<Rightarrow> oid \<Rightarrow> 'h populated outcome"
  date_value :: "jsval \<Rightarrow> int option"
  isValidObjectId :: "string \<Rightarrow> bool"
  cast_other :: "string \<Rightarrow> oid option"
  now :: int

section \<open>The database driver\<close>

definition db_call :: "db_op \<Rightarrow> 'h state \<Rightarrow> 'h state" where
  "db_call opn s = s\<lparr>oplog := oplog s @ [opn]\<rparr>"

definition hex_digit :: "nat \<Rightarrow> char" where
  "hex_digit d = ''0123456789abcdef'' ! (d mod 16)"

fun hex_of :: "nat \<Rightarrow> nat \<Rightarrow> string" where
  "hex_of 0 n = []"
| "hex_of (Suc k) n = hex_of k (n div 16) @ [hex_digit n]"

text \<open>The identifier a new document receives: 24 hexadecimal digits, from the counter.\<close>

definition new_oid :: "'h state \<Rightarrow> oid" where
  "new_oid s = ObjectId (hex_of 24 (next_oid s))"

text \<open>\<^verbatim>\<open>_id.toString()\<close>.\<close>

definition oid_string :: "oid \<Rightarrow> string" where
  "oid_string i = (case i of ObjectId x \<Rightarrow> x)"

text \<open>
  The cast of the schema, applied to the string given for an \<^verbatim>\<open>ObjectId\<close> field or for the
  \<^verbatim>\<open>_id\<close> of a query: 24 hexadecimal digits, in either case, are that identifier; any other
  string is left to \<open>cast_other\<close>. The caller's \<^verbatim>\<open>catch\<close> receives a failed cast.
\<close>

definition is_hex :: "char \<Rightarrow> bool" where
  "is_hex c = (c \<in> set ''0123456789abcdefABCDEF'')"

definition lower_hex :: "char \<Rightarrow> char" where
  "lower_hex c =
     (if c = CHR ''A'' then CHR ''a''
      else if c = CHR ''B'' then CHR ''b''
      else if c = CHR ''C'' then CHR ''c''
      else if c = CHR ''D'' then CHR ''d''
      else if c = CHR ''E'' then CHR ''e''
      else if c = CHR ''F'' then CHR ''f''
      else c)"

definition castObjectId :: "(string \<Rightarrow> oid option) \<Rightarrow> string \<Rightarrow> oid option" where
  "castObjectId other x =
     (if length x = 24 \<and> list_all is_hex x then Some (ObjectId (map lower_hex x)) else other x)"

text \<open>
  \<^verbatim>\<open>new Model(fields).save()\<close> and \<^verbatim>\<open>Model.create(fields)\<close>, once the driver accepted them.
  The identifiers \<open>saveChat\<close> gives to \<^verbatim>\<open>ChatModel.create\<close> are the \<^verbatim>\<open>toString()\<close> of stored
  identifiers, which the cast reads back as those identifiers; they are passed as such.
\<close>

definition insert_message :: "message \<Rightarrow> 'h state \<Rightarrow> message_doc \<times> 'h state" where
  "insert_message m s =
     (let saved = (new_oid s, m)
      in (saved, s\<lparr>msgs := msgs s @ [saved], next_oid := Suc (next_oid s)\<rparr>))"

definition insert_chat :: "oid list \<Rightarrow> oid list \<Rightarrow> 'h state \<Rightarrow> chat \<times> 'h state" where
  "insert_chat ps ms s =
     (let newChat = \<lparr>chat_id = new_oid s, participants = ps, messages = ms\<rparr>
      in (newChat, s\<lparr>chats := chats s @ [newChat], next_oid := Suc (next_oid s)\<rparr>))"

text \<open>\<^verbatim>\<open>findByIdAndUpdate(id, update, { new: true })\<close>: the first document with that id is
  replaced by its update.\<close>

fun update_first :: "('a \<Rightarrow> bool) \<Rightarrow> ('a \<Rightarrow> 'a) \<Rightarrow> 'a list \<Rightarrow> 'a list" where
  "update_first P f [] = []"
| "update_first P f (x # xs) = (if P x then f x # xs else x # update_first P f xs)"

text \<open>\<^verbatim>\<open>$push\<close> appends; \<^verbatim>\<open>$addToSet\<close> appends unless the value is already in the array.\<close>

definition push_message :: "oid \<Rightarrow> chat \<Rightarrow> chat" where
  "push_message mid c = c\<lparr>messages := messages c @ [mid]\<rparr>"

definition addToSet_participant :: "oid \<Rightarrow> chat \<Rightarrow> chat" where
  "addToSet_participant uid c =
     (if uid \<in> set (participants c) then c else c\<lparr>participants := participants c @ [uid]\<rparr>)"

text \<open>\<^verbatim>\<open>{ participants: { $all: ids } }\<close>: every id is in the array; an empty \<^verbatim>\<open>$all\<close> matches
  no document.\<close>

definition matches_all :: "oid list \<Rightarrow> chat \<Rightarrow> bool" where
  "matches_all ids c = (ids \<noteq> [] \<and> list_all (\<lambda>i. i \<in> set (participants c)) ids)"

text \<open>\<^verbatim>\<open>Promise.all\<close>: rejects when one of the promises rejects.\<close>

fun promise_all :: "'a outcome list \<Rightarrow> 'a list outcome" where
  "promise_all [] = Returns []"
| "promise_all (Throws # rs) = Throws"
| "promise_all (Returns x # rs) =
     (case promise_all rs of Throws \<Rightarrow> Throws | Returns xs \<Rightarrow> Returns (x # xs))"

section \<open>The service: chat.service.ts\<close>

text \<open>
  The \<^verbatim>\<open>map\<close> of \<open>saveChat\<close> over the seed messages: every \<^verbatim>\<open>save()\<close> is started, each with
  \<^verbatim>\<open>type: 'direct'\<close>; those the driver accepts are stored, whatever the others do.
\<close>

fun save_seeds ::
  "(db_op \<Rightarrow> bool) \<Rightarrow> nat \<Rightarrow> message list \<Rightarrow> 'h state \<Rightarrow> oid outcome list \<times> 'h state" where
  "save_seeds fl i [] s = ([], s)"
| "save_seeds fl i (m # ms) s =
     (let s1 = db_call (MessageSave i) s
      in if fl (MessageSave i)
         then (let (rs, s2) = save_seeds fl (Suc i) ms s1 in (Throws # rs, s2))
         else (let (saved, s2) = insert_message (m\<lparr>msgType := ''direct''\<rparr>) s1;
                   (rs, s3) = save_seeds fl (Suc i) ms s2
               in (Returns (fst saved) # rs, s3)))"

definition saveChat ::
  "(db_op \<Rightarrow> bool) \<Rightarrow> create_chat_payload \<Rightarrow> 'h state \<Rightarrow> chat response \<times> 'h state" where
  "saveChat fl chatPayload s =
     (let (savedMessages, s1) =
            (case cp_messages chatPayload of
               None \<Rightarrow> ([], s)
             | Some ms \<Rightarrow> save_seeds fl 0 ms s)
      in case promise_all savedMessages of
           Throws \<Rightarrow> (Err ''Failed to save chat'', s1)
         | Returns messageIds \<Rightarrow>
             (let s2 = db_call UserFind s1
              in if fl UserFind then (Err ''Failed to save chat'', s2)
                 else
                   (let found = filter (\<lambda>u. username u \<in> set (cp_participants chatPayload))
                                  (users s2)
                    in if length found \<noteq> length (cp_participants chatPayload)
                       then (Err ''Some users not found'', s2)
                       else
                         (let participantIds = map user_id found;
                              s3 = db_call ChatCreate s2
                          in if fl ChatCreate then (Err ''Failed to save chat'', s3)
                             else (let (newChat, s4) = insert_chat participantIds messageIds s3
                                   in (Doc newChat, s4))))))"

definition createMessage ::
  "(db_op \<Rightarrow> bool) \<Rightarrow> message \<Rightarrow> 'h state \<Rightarrow> message_doc response \<times> 'h state" where
  "createMessage fl messageData s =
     (let s1 = db_call UserFindOne s
      in if fl UserFindOne then (Err ''Failed to create message'', s1)
         else
           (case find (\<lambda>u. username u = msgFrom messageData) (users s1) of
              None \<Rightarrow> (Err ''User not found'', s1)
            | Some u \<Rightarrow>
                (let s2 = db_call (MessageSave 0) s1
                 in if fl (MessageSave 0) then (Err ''Failed to create message'', s2)
                    else (let (savedMessage, s3) = insert_message messageData s2
                          in (Doc savedMessage, s3)))))"

text \<open>
  The three functions below take identifiers as strings. \<^verbatim>\<open>findById\<close> and
  \<^verbatim>\<open>findByIdAndUpdate\<close> cast the id of the query and the values of the update before the
  collection is searched; a failed cast is thrown and caught like a rejection.
\<close>

definition addMessageToChat ::
  "(db_op \<Rightarrow> bool) \<Rightarrow> (string \<Rightarrow> oid option) \<Rightarrow> string \<Rightarrow> string \<Rightarrow> 'h state \<Rightarrow>
     chat response \<times> 'h state" where
  "addMessageToChat fl other chatId messageId s =
     (let s1 = db_call ChatFindByIdAndUpdate s
      in if fl ChatFindByIdAndUpdate then (Err ''Failed to add message to chat'', s1)
         else
           (case castObjectId other chatId of
              None \<Rightarrow> (Err ''Failed to add message to chat'', s1)
            | Some cid \<Rightarrow>
                (case castObjectId other messageId of
                   None \<Rightarrow> (Err ''Failed to add message to chat'', s1)
                 | Some mid \<Rightarrow>
                     (case find (\<lambda>c. chat_id c = cid) (chats s1) of
                        None \<Rightarrow> (Err ''Chat not found'', s1)
                      | Some c \<Rightarrow>
                          (Doc (push_message mid c),
                           s1\<lparr>chats := update_first (\<lambda>c. chat_id c = cid) (push_message mid)
                                          (chats s1)\<rparr>)))))"

definition getChat ::
  "(db_op \<Rightarrow> bool) \<Rightarrow> (string \<Rightarrow> oid option) \<Rightarrow> string \<Rightarrow> 'h state \<Rightarrow>
     chat response \<times> 'h state" where
  "getChat fl other chatId s =
     (let s1 = db_call ChatFindById s
      in if fl ChatFindById then (Err ''Failed to get chat'', s1)
         else
           (case castObjectId other chatId of
              None \<Rightarrow> (Err ''Failed to get chat'', s1)
            | Some cid \<Rightarrow>
                (case find (\<lambda>c. chat_id c = cid) (chats s1) of
                   None \<Rightarrow> (Err ''Chat not found'', s1)
                 | Some c \<Rightarrow> (Doc c, s1))))"

definition getChatsByParticipants ::
  "(db_op \<Rightarrow> bool) \<Rightarrow> string list \<Rightarrow> 'h state \<Rightarrow> chat list \<times> 'h state" where
  "getChatsByParticipants fl usernames s =
     (let s1 = db_call UserFind s
      in if fl UserFind then ([], s1)
         else
           (let found = filter (\<lambda>u. username u \<in> set usernames) (users s1);
                userIds = map user_id found;
                s2 = db_call ChatFind s1
            in if fl ChatFind then ([], s2)
               else (filter (matches_all userIds) (chats s2), s2)))"

definition addParticipantToChat ::
  "(db_op \<Rightarrow> bool) \<Rightarrow> (string \<Rightarrow> oid option) \<Rightarrow> string \<Rightarrow> string \<Rightarrow> 'h state \<Rightarrow>
     chat response \<times> 'h state" where
  "addParticipantToChat fl other chatId userId s =
     (let s1 = db_call ChatFindByIdAndUpdate s
      in if fl ChatFindByIdAndUpdate then (Err ''Failed to add participant to chat'', s1)
         else
           (case castObjectId other chatId of
              None \<Rightarrow> (Err ''Failed to add participant to chat'', s1)
            | Some cid \<Rightarrow>
                (case castObjectId other userId of
                   None \<Rightarrow> (Err ''Failed to add participant to chat'', s1)
                 | Some uid \<Rightarrow>
                     (case find (\<lambda>c. chat_id c = cid) (chats s1) of
                        None \<Rightarrow> (Err ''Chat not found'', s1)
                      | Some c \<Rightarrow>
                          (Doc (addToSet_participant uid c),
                           s1\<lparr>chats := update_first (\<lambda>c. chat_id c = cid)
                                          (addToSet_participant uid) (chats s1)\<rparr>)))))"

section \<open>The controller\<close>

subsection \<open>JavaScript values\<close>

text \<open>\<^verbatim>\<open>typeof v === 'string'\<close>.\<close>

definition is_string :: "jsval \<Rightarrow> bool" where
  "is_string v = (case v of JStr x \<Rightarrow> True | _ \<Rightarrow> False)"

text \<open>The string in a value; the routes read it only after the validator found a string.\<close>

definition str_of :: "jsval \<Rightarrow> string" where
  "str_of v = (case v of JStr x \<Rightarrow> x | _ \<Rightarrow> [])"

text \<open>Truthiness, as \<^verbatim>\<open>!v\<close> and \<^verbatim>\<open>v ? a : b\<close> test it.\<close>

definition truthy :: "jsval \<Rightarrow> bool" where
  "truthy v =
     (case v of
        JUndefined \<Rightarrow> False
      | JNull \<Rightarrow> False
      | JBool b \<Rightarrow> b
      | JNum n \<Rightarrow> n \<noteq> 0
      | JStr x \<Rightarrow> x \<noteq> []
      | JArr xs \<Rightarrow> True
      | JObj kvs \<Rightarrow> True)"

text \<open>
  \<^verbatim>\<open>v.key\<close> for the keys the code reads (none is a property of a prototype): the field of
  an object (the last one, when the body repeated the key), \<^verbatim>\<open>undefined\<close> otherwise. On
  \<^verbatim>\<open>null\<close> and \<^verbatim>\<open>undefined\<close> the access throws; the callers test that first.
\<close>

definition get_prop :: "jsval \<Rightarrow> string \<Rightarrow> jsval" where
  "get_prop v key =
     (case v of
        JObj kvs \<Rightarrow> (case map_of (rev kvs) key of None \<Rightarrow> JUndefined | Some x \<Rightarrow> x)
      | _ \<Rightarrow> JUndefined)"

text \<open>
  \<^verbatim>\<open>String.prototype.trim\<close> removes white space and line terminators from both ends. A
  string of the model is the UTF-8 encoding of the text, so each such character is the
  byte sequence listed here: TAB, LF, VT, FF, CR, SPACE, U+00A0, U+1680, U+2000 to U+200A,
  U+2028, U+2029, U+202F, U+205F, U+3000 and U+FEFF.
\<close>

definition js_whitespace :: "string list" where
  "js_whitespace =
     [[CHR 0x09], [CHR 0x0A], [CHR 0x0B], [CHR 0x0C], [CHR 0x0D], [CHR 0x20],
      [CHR 0xC2, CHR 0xA0],
      [CHR 0xE1, CHR 0x9A, CHR 0x80],
      [CHR 0xE2, CHR 0x80, CHR 0x80], [CHR 0xE2, CHR 0x80, CHR 0x81],
      [CHR 0xE2, CHR 0x80, CHR 0x82], [CHR 0xE2, CHR 0x80, CHR 0x83],
      [CHR 0xE2, CHR 0x80, CHR 0x84], [CHR 0xE2, CHR 0x80, CHR 0x85],
      [CHR 0xE2, CHR 0x80, CHR 0x86], [CHR 0xE2, CHR 0x80, CHR 0x87],
      [CHR 0xE2, CHR 0x80, CHR 0x88], [CHR 0xE2, CHR 0x80, CHR 0x89],
      [CHR 0xE2, CHR 0x80, CHR 0x8A],
      [CHR 0xE2, CHR 0x80, CHR 0xA8], [CHR 0xE2, CHR 0x80, CHR 0xA9],
      [CHR 0xE2, CHR 0x80, CHR 0xAF],
      [CHR 0xE2, CHR 0x81, CHR 0x9F],
      [CHR 0xE3, CHR 0x80, CHR 0x80],
      [CHR 0xEF, CHR 0xBB, CHR 0xBF]]"

text \<open>Removes, from the front, every leading occurrence of one of the given sequences.\<close>

fun strip_lead :: "string list \<Rightarrow> string \<Rightarrow> string" where
  "strip_lead ws [] = []"
| "strip_lead ws (c # cs) =
     (case find (\<lambda>w. w \<noteq> [] \<and> take (length w) (c # cs) = w) ws of
        None \<Rightarrow> c # cs
      | Some w \<Rightarrow> strip_lead ws (drop (length w - 1) cs))"

definition js_trim :: "string \<Rightarrow> string" where
  "js_trim x = rev (strip_lead (map rev js_whitespace) (rev (strip_lead js_whitespace x)))"

subsection \<open>Requests and responses\<close>

record create_chat_request =
  cr_participants :: jsval
  cr_messages :: jsval

record add_message_request =
  am_chatId :: string
  am_msg :: jsval
  am_msgFrom :: jsval
  am_msgDateTime :: jsval

record add_participant_request =
  ap_chatId :: string
  ap_participant :: jsval

text \<open>
  What \<^verbatim>\<open>res\<close> was given: \<^verbatim>\<open>json({ error })\<close>, \<^verbatim>\<open>json(populated)\<close>, \<^verbatim>\<open>json(populatedChats)\<close> or
  \<^verbatim>\<open>send(text)\<close>.
\<close>

datatype 'h body =
    ErrorBody string
  | PopulatedBody "'h populated"
  | ListBody "'h populated list"
  | TextBody string

text \<open>\<open>Unhandled\<close>: the handler threw outside its \<^verbatim>\<open>try\<close>; it sent no response.\<close>

datatype 'h reply = Responds nat "'h body" | Unhandled

subsection \<open>The server socket\<close>

text \<open>\<^verbatim>\<open>socket.emit(name, payload)\<close> on the server: every connection receives the event.\<close>

definition socket_emit :: "string \<Rightarrow> 'h chat_update \<Rightarrow> 'h state \<Rightarrow> 'h state" where
  "socket_emit name payload s =
     s\<lparr>emitted := emitted s @ [\<lparr>ev_to = map fst (conns s), ev_name = name, ev_data = payload\<rparr>]\<rparr>"


definition leaveChat :: "nat \<Rightarrow> jsval \<Rightarrow> 'h state \<Rightarrow> 'h state" where
  "leaveChat conn chatId s =
     (case chatId of
        JStr room \<Rightarrow>
          s\<lparr>conns := map (\<lambda>(c, rooms). if c = conn then (c, removeAll room rooms) else (c, rooms))
                        (conns s)\<rparr>
      | _ \<Rightarrow> s)"

subsection \<open>Validators\<close>

text \<open>The callback of \<^verbatim>\<open>messages.every\<close>: reading \<^verbatim>\<open>m.msg\<close> throws on \<^verbatim>\<open>null\<close>.\<close>

definition valid_seed :: "'h env \<Rightarrow> jsval \<Rightarrow> bool outcome" where
  "valid_seed e m =
     (case m of
        JUndefined \<Rightarrow> Throws
      | JNull \<Rightarrow> Throws
      | _ \<Rightarrow>
          Returns
            (is_string (get_prop m ''msg'') \<and>
             is_string (get_prop m ''msgFrom'') \<and>
             (\<not> truthy (get_prop m ''msgDateTime'') \<or>
              (is_string (get_prop m ''msgDateTime'') \<and>
               date_value e (get_prop m ''msgDateTime'') \<noteq> None))))"

text \<open>\<^verbatim>\<open>every\<close> stops at the first element that fails the test.\<close>

fun every_seed :: "'h env \<Rightarrow> jsval list \<Rightarrow> bool outcome" where
  "every_seed e [] = Returns True"
| "every_seed e (m # ms) =
     (case valid_seed e m of
        Throws \<Rightarrow> Throws
      | Returns ok \<Rightarrow> if ok then every_seed e ms else Returns False)"

definition isCreateChatRequestValid :: "'h env \<Rightarrow> create_chat_request \<Rightarrow> bool outcome" where
  "isCreateChatRequestValid e req =
     (case cr_participants req of
        JArr ps \<Rightarrow>
          if length ps < 2 then Returns False
          else
            (let validParticipants = list_all is_string ps
             in case (if \<not> truthy (cr_messages req) then Returns True
                      else (case cr_messages req of
                              JArr ms \<Rightarrow> every_seed e ms
                            | _ \<Rightarrow> Returns False)) of
                  Throws \<Rightarrow> Throws
                | Returns validMessages \<Rightarrow> Returns (validParticipants \<and> validMessages))
      | _ \<Rightarrow> Returns False)"

definition isAddMessageRequestValid :: "'h env \<Rightarrow> add_message_request \<Rightarrow> bool" where
  "isAddMessageRequestValid e req =
     (let hasChatId = isValidObjectId e (am_chatId req);
          hasMsg = (is_string (am_msg req) \<and> length (js_trim (str_of (am_msg req))) > 0);
          hasSender = is_string (am_msgFrom req);
          hasValidDate = (am_msgDateTime req = JUndefined \<or>
                          date_value e (am_msgDateTime req) \<noteq> None)
      in hasChatId \<and> hasMsg \<and> hasSender \<and> hasValidDate)"

definition isAddParticipantRequestValid :: "'h env \<Rightarrow> add_participant_request \<Rightarrow> bool" where
  "isAddParticipantRequestValid e req =
     (is_string (ap_participant req) \<and>
      isValidObjectId e (ap_chatId req) \<and>
      isValidObjectId e (str_of (ap_participant req)))"

subsection \<open>Routes\<close>

text \<open>
  \<^verbatim>\<open>req.body\<close> read as the \<^verbatim>\<open>CreateChatPayload\<close> that \<open>saveChat\<close> is typed with. A seed message
  is handed to \<^verbatim>\<open>MessageModel\<close> as the body has it, and the date cast of the schema reads its
  \<^verbatim>\<open>msgDateTime\<close>: a number is that time value (so \<open>0\<close> is 1 January 1970), a string other
  than the empty one is parsed, \<^verbatim>\<open>null\<close>, the empty string and an absent field give no date.
  A boolean is refused by the cast: the \<^verbatim>\<open>save()\<close> of that seed rejects. Only the fields of
  \<^verbatim>\<open>Message\<close> that the validator reads are carried over; the identifier of the stored
  record is always the one the driver assigns.
\<close>

definition seed_date :: "'h env \<Rightarrow> jsval \<Rightarrow> int option" where
  "seed_date e v =
     (case v of
        JStr x \<Rightarrow> if x = [] then None else date_value e v
      | JNum n \<Rightarrow> Some n
      | _ \<Rightarrow> None)"

definition seed_of :: "'h env \<Rightarrow> jsval \<Rightarrow> message" where
  "seed_of e m =
     \<lparr>msg = str_of (get_prop m ''msg''),
      msgFrom = str_of (get_prop m ''msgFrom''),
      msgDateTime = seed_date e (get_prop m ''msgDateTime''),
      msgType = str_of (get_prop m ''type'')\<rparr>"

definition seed_uncastable :: "jsval \<Rightarrow> bool" where
  "seed_uncastable m = (case get_prop m ''msgDateTime'' of JBool b \<Rightarrow> True | _ \<Rightarrow> False)"

text \<open>The rejections of a creation request: those of the driver, and the refused casts.\<close>

definition create_fails :: "'h env \<Rightarrow> create_chat_request \<Rightarrow> db_op \<Rightarrow> bool" where
  "create_fails e req opn =
     (fails e opn \<or>
      (case opn of
         MessageSave i \<Rightarrow>
           (case cr_messages req of
              JArr ms \<Rightarrow> i < length ms \<and> seed_uncastable (ms ! i)
            | _ \<Rightarrow> False)
       | _ \<Rightarrow> False))"

definition payload_of :: "'h env \<Rightarrow> create_chat_request \<Rightarrow> create_chat_payload" where
  "payload_of e req =
     \<lparr>cp_participants = (case cr_participants req of JArr ps \<Rightarrow> map str_of ps | _ \<Rightarrow> []),
      cp_messages = (case cr_messages req of JArr ms \<Rightarrow> Some (map (seed_of e) ms) | _ \<Rightarrow> None)\<rparr>"

definition createChatRoute ::
  "'h env \<Rightarrow> create_chat_request \<Rightarrow> 'h state \<Rightarrow> 'h reply \<times> 'h state" where
  "createChatRoute e req s =
     (case isCreateChatRequestValid e req of
        Throws \<Rightarrow> (Unhandled, s)
      | Returns ok \<Rightarrow>
          if \<not> ok then (Responds 400 (ErrorBody ''Invalid chat creation request''), s)
          else
            (let (saved, s1) = saveChat (create_fails e req) (payload_of e req) s
             in case saved of
                  Err m \<Rightarrow> (Responds 500 (ErrorBody m), s1)
                | Doc c \<Rightarrow>
                    (case findByIdPopulate e s1 (chat_id c) of
                       Throws \<Rightarrow> (Responds 500 (ErrorBody ''Failed to create chat''), s1)
                     | Returns populated \<Rightarrow>
                         (Responds 201 (PopulatedBody populated),
                          socket_emit ''chatUpdate''
                            \<lparr>upd_chat = populated, upd_type = ''created''\<rparr> s1))))"

text \<open>A saved message always carries its \<^verbatim>\<open>_id\<close>, so \<^verbatim>\<open>!message._id\<close> is false on a document.\<close>

definition addMessageToChatRoute ::
  "'h env \<Rightarrow> add_message_request \<Rightarrow> 'h state \<Rightarrow> 'h reply \<times> 'h state" where
  "addMessageToChatRoute e req s =
     (if \<not> isAddMessageRequestValid e req
      then (Responds 400 (ErrorBody ''Invalid message request''), s)
      else
        (let messagePayload =
               \<lparr>msg = str_of (am_msg req),
                msgFrom = str_of (am_msgFrom req),
                msgDateTime = (if truthy (am_msgDateTime req)
                               then date_value e (am_msgDateTime req) else Some (now e)),
                msgType = ''direct''\<rparr>;
             (message, s1) = createMessage (fails e) messagePayload s
         in case message of
              Err m \<Rightarrow> (Responds 500 (ErrorBody ''Message creation failed or ID missing''), s1)
            | Doc saved \<Rightarrow>
                (let (updatedChat, s2) =
                       addMessageToChat (fails e) (cast_other e) (am_chatId req)
                         (oid_string (fst saved)) s1
                 in case updatedChat of
                      Err m \<Rightarrow> (Responds 500 (ErrorBody m), s2)
                    | Doc c \<Rightarrow>
                        (case populateDocument e s2 (chat_id c) of
                           Throws \<Rightarrow>
                             (Responds 500 (ErrorBody ''Failed to add message to chat''), s2)
                         | Returns populated \<Rightarrow>
                             (Responds 200 (PopulatedBody populated),
                              socket_emit ''chatUpdate''
                                \<lparr>upd_chat = populated, upd_type = ''newMessage''\<rparr> s2)))))"

definition getChatRoute :: "'h env \<Rightarrow> string \<Rightarrow> 'h state \<Rightarrow> 'h reply \<times> 'h state" where
  "getChatRoute e chatId s =
     (let (found, s1) = getChat (fails e) (cast_other e) chatId s
      in case found of
           Err m \<Rightarrow> (Responds 404 (ErrorBody m), s1)
         | Doc c \<Rightarrow>
             (case populateDocument e s1 (chat_id c) of
                Throws \<Rightarrow> (Responds 500 (ErrorBody ''Failed to retrieve chat''), s1)
              | Returns populated \<Rightarrow> (Responds 200 (PopulatedBody populated), s1)))"

text \<open>
  The callback of \<^verbatim>\<open>populatedChats.some\<close>: \<^verbatim>\<open>chat.error !== undefined\<close>. It stops at the first
  element with an \<^verbatim>\<open>error\<close> field; on \<^verbatim>\<open>null\<close> the read throws.
\<close>

fun some_error :: "'h populated list \<Rightarrow> bool outcome" where
  "some_error [] = Returns False"
| "some_error (Hydrated h # ps) = some_error ps"
| "some_error (ErrorObj m # ps) = Returns True"
| "some_error (Null # ps) = Throws"

definition getChatsByUserRoute :: "'h env \<Rightarrow> string \<Rightarrow> 'h state \<Rightarrow> 'h reply \<times> 'h state" where
  "getChatsByUserRoute e uname s =
     (let (found, s1) = getChatsByParticipants (fails e) [uname] s
      in case promise_all (map (\<lambda>c. populateDocument e s1 (chat_id c)) found) of
           Throws \<Rightarrow> (Responds 500 (ErrorBody ''Failed to retrieve chats''), s1)
         | Returns populatedChats \<Rightarrow>
             (case some_error populatedChats of
                Throws \<Rightarrow> (Responds 500 (ErrorBody ''Failed to retrieve chats''), s1)
              | Returns hasError \<Rightarrow>
                  if hasError
                  then (Responds 500 (TextBody ''Error retrieving chat: Failed populating chats''),
                        s1)
                  else (Responds 200 (ListBody populatedChats), s1)))"

definition addParticipantToChatRoute ::
  "'h env \<Rightarrow> add_participant_request \<Rightarrow> 'h state \<Rightarrow> 'h reply \<times> 'h state" where
  "addParticipantToChatRoute e req s =
     (if \<not> isAddParticipantRequestValid e req
      then (Responds 400 (ErrorBody ''Invalid participant''), s)
      else
        (let (updated, s1) =
               addParticipantToChat (fails e) (cast_other e) (ap_chatId req)
                 (str_of (ap_participant req)) s
         in case updated of
              Err m \<Rightarrow> (Responds 500 (ErrorBody m), s1)
            | Doc c \<Rightarrow>
                (case populateDocument e s1 (chat_id c) of
                   Throws \<Rightarrow> (Responds 500 (ErrorBody ''Failed to add participant''), s1)
                 | Returns populated \<Rightarrow> (Responds 200 (PopulatedBody populated), s1))))"

text \<open>The status code of a reply, when there is one.\<close>

definition status_of :: "'h reply \<Rightarrow> nat option" where
  "status_of r = (case r of Responds code b \<Rightarrow> Some code | Unhandled \<Rightarrow> None)"

section \<open>Hydration and a fixture\<close>

record hydrated_message =
  hm_id :: oid
  hm_fields :: message
  hm_sender :: "user option"

record hydrated_chat =
  h_id :: oid
  h_participants :: "user list"
  h_messages :: "hydrated_message list"

text \<open>
  Modelled from the spec: \<^verbatim>\<open>populateDocument\<close> of \<^verbatim>\<open>utils/database.util\<close> is not among the
  sources. Section 4.5: it loads the chat and expands each message reference into its
  record, with its sender's identity, and each participant reference into its identity
  record. The theorems below hold for every \<open>populateDocument\<close>; this one serves the
  concrete instances.
\<close>

definition hydrate :: "'a state \<Rightarrow> chat \<Rightarrow> hydrated_chat" where
  "hydrate s c =
     \<lparr>h_id = chat_id c,
      h_participants = List.map_filter (\<lambda>i. find (\<lambda>u. user_id u = i) (users s)) (participants c),
      h_messages =
        List.map_filter
          (\<lambda>i. map_option
                 (\<lambda>d. \<lparr>hm_id = i, hm_fields = snd d,
                        hm_sender = find (\<lambda>u. username u = msgFrom (snd d)) (users s)\<rparr>)
                 (find (\<lambda>d. fst d = i) (msgs s)))
          (messages c)\<rparr>"

definition populate_chat_document :: "'a state \<Rightarrow> oid \<Rightarrow> hydrated_chat populated outcome" where
  "populate_chat_document s cid =
     (case find (\<lambda>c. chat_id c = cid) (chats s) of
        None \<Rightarrow> Returns (ErrorObj ''Chat not found'')
      | Some c \<Rightarrow> Returns (Hydrated (hydrate s c)))"

text \<open>The populated query of \<open>createChatRoute\<close> yields \<^verbatim>\<open>null\<close> when no chat has the id.\<close>

definition populate_chat_query :: "'a state \<Rightarrow> oid \<Rightarrow> hydrated_chat populated outcome" where
  "populate_chat_query s cid =
     (case find (\<lambda>c. chat_id c = cid) (chats s) of
        None \<Rightarrow> Returns Null
      | Some c \<Rightarrow> Returns (Hydrated (hydrate s c)))"

text \<open>
  An environment for the concrete instances: no driver call rejects, an identifier is
  valid, and castable, exactly when it is 24 hexadecimal digits, and of all date strings
  \<^verbatim>\<open>2025-01-01T00:00:00.000Z\<close> alone is read. The requests of the instances stay within
  that: their identifiers are 24 hexadecimal digits or plainly malformed, and they carry
  no other date string.
\<close>

definition hex24 :: "string \<Rightarrow> bool" where
  "hex24 x = (length x = 24 \<and> list_all is_hex x)"

definition demo_date :: "jsval \<Rightarrow> int option" where
  "demo_date v =
     (case v of
        JStr x \<Rightarrow> if x = ''2025-01-01T00:00:00.000Z'' then Some 1735689600000 else None
      | JNull \<Rightarrow> Some 0
      | JBool b \<Rightarrow> Some (if b then 1 else 0)
      | JNum n \<Rightarrow> Some n
      | _ \<Rightarrow> None)"

definition demo_env :: "hydrated_chat env" where
  "demo_env =
     \<lparr>fails = (\<lambda>opn. False),
      populateDocument = populate_chat_document,
      findByIdPopulate = populate_chat_query,
      date_value = demo_date,
      isValidObjectId = hex24,
      cast_other = (\<lambda>x. None),
      now = 1735689600000\<rparr>"

definition alice :: user where
  "alice = \<lparr>user_id = ObjectId ''aaaaaaaaaaaaaaaaaaaaaaaa'', username = ''alice''\<rparr>"

definition bob :: user where
  "bob = \<lparr>user_id = ObjectId ''bbbbbbbbbbbbbbbbbbbbbbbb'', username = ''bob''\<rparr>"

definition carol :: user where
  "carol = \<lparr>user_id = ObjectId ''cccccccccccccccccccccccc'', username = ''carol''\<rparr>"

definition chat_ab :: chat where
  "chat_ab =
     \<lparr>chat_id = ObjectId ''111111111111111111111111'',
      participants = [user_id alice, user_id bob],
      messages = []\<rparr>"

definition chat_bc :: chat where
  "chat_bc =
     \<lparr>chat_id = ObjectId ''222222222222222222222222'',
      participants = [user_id bob, user_id carol],
      messages = []\<rparr>"

text \<open>
  Three users, two chats, and two socket connections: connection 1 has joined no room,
  connection 2 has joined the room of the first chat.
\<close>

definition demo_state :: "hydrated_chat state" where
  "demo_state =
     \<lparr>users = [alice, bob, carol],
      msgs = [],
      chats = [chat_ab, chat_bc],
      next_oid = 0,
      oplog = [],
      conns = [(1, []), (2, [''111111111111111111111111''])],
      emitted = []\<rparr>"

text \<open>Two requests to add a message from bob: to the first chat, and to a chat that does not exist.\<close>

definition msg_to_chat_ab :: add_message_request where
  "msg_to_chat_ab =
     \<lparr>am_chatId = ''111111111111111111111111'', am_msg = JStr ''yo'',
      am_msgFrom = JStr ''bob'', am_msgDateTime = JUndefined\<rparr>"

definition msg_to_missing_chat :: add_message_request where
  "msg_to_missing_chat =
     \<lparr>am_chatId = ''333333333333333333333333'', am_msg = JStr ''yo'',
      am_msgFrom = JStr ''bob'', am_msgDateTime = JUndefined\<rparr>"

text \<open>An environment whose chat query rejects, and one where hydrating the second chat rejects.\<close>

definition env_find_rejects :: "hydrated_chat env" where
  "env_find_rejects = demo_env\<lparr>fails := (\<lambda>opn. opn = ChatFind)\<rparr>"

definition env_populate_rejects :: "hydrated_chat env" where
  "env_populate_rejects =
     demo_env\<lparr>populateDocument :=
       (\<lambda>s i. if i = ObjectId ''222222222222222222222222'' then Throws
              else populate_chat_document s i)\<rparr>"

text \<open>A creation payload with one seed message and a participant that is no user.\<close>

definition payload_unknown_user :: create_chat_payload where
  "payload_unknown_user =
     \<lparr>cp_participants = [''alice'', ''zed''],
      cp_messages = Some [\<lparr>msg = ''hi'', msgFrom = ''alice'', msgDateTime = None, msgType = []\<rparr>]\<rparr>"

text \<open>A creation payload of two users, with one seed message; and a message from bob.\<close>

definition payload_alice_bob :: create_chat_payload where
  "payload_alice_bob =
     \<lparr>cp_participants = [''alice'', ''bob''],
      cp_messages = Some [\<lparr>msg = ''hi'', msgFrom = ''alice'', msgDateTime = None, msgType = []\<rparr>]\<rparr>"

definition message_from_bob :: message where
  "message_from_bob =
     \<lparr>msg = ''yo'', msgFrom = ''bob'', msgDateTime = Some 1735689600000, msgType = ''direct''\<rparr>"

text \<open>
  Requests to add a participant to the first chat: carol, and alice (already in it) with
  her identifier spelled in upper case.
\<close>

definition add_carol_to_chat_ab :: add_participant_request where
  "add_carol_to_chat_ab =
     \<lparr>ap_chatId = ''111111111111111111111111'',
      ap_participant = JStr ''cccccccccccccccccccccccc''\<rparr>"

definition add_alice_upper_to_chat_ab :: add_participant_request where
  "add_alice_upper_to_chat_ab =
     \<lparr>ap_chatId = ''111111111111111111111111'',
      ap_participant = JStr ''AAAAAAAAAAAAAAAAAAAAAAAA''\<rparr>"

text \<open>A message for a chat that does not exist, from a sender who is no user.\<close>

definition msg_from_stranger :: add_message_request where
  "msg_from_stranger =
     \<lparr>am_chatId = ''333333333333333333333333'', am_msg = JStr ''yo'',
      am_msgFrom = JStr ''zed'', am_msgDateTime = JUndefined\<rparr>"

section \<open>Basic facts\<close>

text \<open>
  After validation the routes read strings where the validator found strings, so the
  coercion \<open>str_of\<close> loses nothing there.
\<close>

lemma is_string_str_of: "is_string v \<Longrightarrow> JStr (str_of v) = v"
  by (cases v) (simp_all add: is_string_def str_of_def)

lemma valid_create_request_participants:
  assumes "isCreateChatRequestValid e req = Returns True"
  shows "cr_participants req = JArr (map JStr (cp_participants (payload_of e req))) \<and>
         2 \<le> length (cp_participants (payload_of e req))"
proof (cases "cr_participants req")
  case (JArr ps)
  have "list_all is_string ps \<and> 2 \<le> length ps"
    using assms JArr
    by (auto simp add: isCreateChatRequestValid_def Let_def split: if_splits outcome.splits)
  moreover have "list_all is_string ps \<Longrightarrow> map JStr (map str_of ps) = ps"
    by (induction ps) (simp_all add: is_string_str_of)
  ultimately show ?thesis
    using JArr by (simp add: payload_of_def)
qed (use assms in \<open>simp_all add: isCreateChatRequestValid_def\<close>)

lemma valid_add_message_request_fields:
  assumes "isAddMessageRequestValid e req"
  shows "am_msg req = JStr (str_of (am_msg req)) \<and>
         am_msgFrom req = JStr (str_of (am_msgFrom req)) \<and>
         (truthy (am_msgDateTime req) \<longrightarrow> date_value e (am_msgDateTime req) \<noteq> None)"
  using assms by (auto simp add: isAddMessageRequestValid_def Let_def is_string_str_of truthy_def)

text \<open>The string of a fresh identifier casts back to that identifier.\<close>

lemma hex_digit_canonical: "is_hex (hex_digit n) \<and> lower_hex (hex_digit n) = hex_digit n"
proof -
  have "hex_digit n \<in> set ''0123456789abcdef''"
    unfolding hex_digit_def by (rule nth_mem) simp
  then show ?thesis
    by (auto simp add: is_hex_def lower_hex_def)
qed

lemma hex_of_canonical:
  "length (hex_of k n) = k \<and> list_all is_hex (hex_of k n) \<and>
   map lower_hex (hex_of k n) = hex_of k n"
  by (induction k arbitrary: n) (simp_all add: hex_digit_canonical)

lemma cast_new_oid: "castObjectId other (oid_string (new_oid s)) = Some (new_oid s)"
  by (simp add: castObjectId_def oid_string_def new_oid_def hex_of_canonical)

lemma new_oid_db_call: "new_oid (db_call opn s) = new_oid s"
  by (simp add: new_oid_def db_call_def)

lemma find_Some_holds: "find P xs = Some x \<Longrightarrow> P x \<and> x \<in> set xs"
  by (induction xs) (auto split: if_splits)

lemma find_update_first:
  "find P xs = Some x \<Longrightarrow> P (f x) \<Longrightarrow> find P (update_first P f xs) = Some (f x)"
  by (induction xs) (auto split: if_splits)

lemma update_first_twice:
  "find P xs = Some x \<Longrightarrow> P (f x) \<Longrightarrow> f (f x) = f x \<Longrightarrow>
   update_first P f (update_first P f xs) = update_first P f xs"
  by (induction xs) (auto split: if_splits)

lemma addToSet_chat_id: "chat_id (addToSet_participant uid c) = chat_id c"
  by (simp add: addToSet_participant_def)

lemma addToSet_idem:
  "addToSet_participant uid (addToSet_participant uid c) = addToSet_participant uid c"
  by (simp add: addToSet_participant_def)

lemma matches_all_single: "matches_all [i] = (\<lambda>c. i \<in> set (participants c))"
  by (simp add: fun_eq_iff matches_all_def)

lemma promise_all_Returns: "promise_all rs = Returns xs \<Longrightarrow> rs = map Returns xs"
  by (induction rs arbitrary: xs rule: promise_all.induct) (auto split: outcome.splits)

lemma promise_all_map_Returns: "promise_all (map Returns xs) = Returns xs"
  by (induction xs) auto

lemma some_error_False:
  "some_error ps = Returns False \<Longrightarrow> p \<in> set ps \<Longrightarrow> \<exists>h. p = Hydrated h"
  by (induction ps rule: some_error.induct) auto

subsection \<open>What the service calls leave untouched\<close>

lemma createMessage_frame:
  "createMessage fl m s = (r, s1) \<Longrightarrow>
   chats s1 = chats s \<and> emitted s1 = emitted s \<and> conns s1 = conns s \<and> users s1 = users s"
  by (auto simp add: createMessage_def insert_message_def db_call_def Let_def
      split: if_splits option.splits)

lemma addMessageToChat_missing:
  assumes "\<forall>cid. castObjectId other chatId = Some cid \<longrightarrow>
             find (\<lambda>c. chat_id c = cid) (chats s) = None"
    and "castObjectId other messageId \<noteq> None"
  shows "\<exists>s1. addMessageToChat fl other chatId messageId s =
           (Err (if fl ChatFindByIdAndUpdate \<or> castObjectId other chatId = None
                 then ''Failed to add message to chat'' else ''Chat not found''), s1) \<and>
           chats s1 = chats s \<and> emitted s1 = emitted s \<and> msgs s1 = msgs s"
  using assms
  by (auto simp add: addMessageToChat_def db_call_def Let_def split: option.splits)


lemma createMessage_Doc:
  "createMessage fl m s = (Doc d, s1) \<Longrightarrow>
   msgs s1 = msgs s @ [d] \<and> d = (new_oid s, m) \<and>
   find (\<lambda>u. username u = msgFrom m) (users s) \<noteq> None"
  by (auto simp add: createMessage_def insert_message_def db_call_def Let_def new_oid_def
      split: if_splits option.splits)

lemma createMessage_Err_msgs:
  "createMessage fl m s = (Err x, s1) \<Longrightarrow> msgs s1 = msgs s"
  by (auto simp add: createMessage_def insert_message_def db_call_def Let_def
      split: if_splits option.splits)

lemma addMessageToChat_msgs:
  "addMessageToChat fl other chatId messageId s = (r, s1) \<Longrightarrow> msgs s1 = msgs s"
  by (auto simp add: addMessageToChat_def db_call_def Let_def split: if_splits option.splits)

lemma createMessage_created:
  assumes "\<not> fl UserFindOne" and "find (\<lambda>u. username u = msgFrom m) (users s) \<noteq> None"
    and "\<not> fl (MessageSave 0)"
  shows "\<exists>s1. createMessage fl m s = (Doc (new_oid s, m), s1)"
  using assms
  by (auto simp add: createMessage_def insert_message_def db_call_def Let_def new_oid_def)

lemma createMessage_not_created:
  assumes "fl UserFindOne \<or> find (\<lambda>u. username u = msgFrom m) (users s) = None \<or>
           fl (MessageSave 0)"
  shows "\<exists>x s1. createMessage fl m s = (Err x, s1) \<and> msgs s1 = msgs s"
  using assms
  by (auto simp add: createMessage_def db_call_def Let_def split: option.splits)

text \<open>
  The seed messages of \<open>saveChat\<close>: whatever the driver does, every record added to the
  message collection is one of the seed messages, tagged \<^verbatim>\<open>direct\<close>.
\<close>

lemma save_seeds_any:
  "save_seeds fl i ms s = (rs, s') \<Longrightarrow>
   \<exists>new. msgs s' = msgs s @ new \<and>
         (\<forall>d\<in>set new. \<exists>m\<in>set ms. snd d = m\<lparr>msgType := ''direct''\<rparr>) \<and>
         chats s' = chats s \<and> users s' = users s \<and>
         emitted s' = emitted s \<and> conns s' = conns s"
proof (induction ms arbitrary: i s rs s')
  case Nil
  then show ?case by simp
next
  case (Cons m ms)
  show ?case
  proof (cases "fl (MessageSave i)")
    case True
    obtain rs' s2 where rec: "save_seeds fl (Suc i) ms (db_call (MessageSave i) s) = (rs', s2)"
      by (cases "save_seeds fl (Suc i) ms (db_call (MessageSave i) s)")
    have s': "s' = s2"
      using Cons.prems True rec by (simp add: Let_def)
    from Cons.IH [OF rec] obtain new where
      "msgs s2 = msgs (db_call (MessageSave i) s) @ new"
      "\<forall>d\<in>set new. \<exists>m\<in>set ms. snd d = m\<lparr>msgType := ''direct''\<rparr>"
      "chats s2 = chats (db_call (MessageSave i) s)" "users s2 = users (db_call (MessageSave i) s)"
      "emitted s2 = emitted (db_call (MessageSave i) s)" "conns s2 = conns (db_call (MessageSave i) s)"
      by blast
    then show ?thesis
      using s' by (intro exI [of _ new]) (auto simp add: db_call_def)
  next
    case False
    obtain saved s2 where ins:
      "insert_message (m\<lparr>msgType := ''direct''\<rparr>) (db_call (MessageSave i) s) = (saved, s2)"
      by (cases "insert_message (m\<lparr>msgType := ''direct''\<rparr>) (db_call (MessageSave i) s)")
    obtain rs' s3 where rec: "save_seeds fl (Suc i) ms s2 = (rs', s3)"
      by (cases "save_seeds fl (Suc i) ms s2")
    have s': "s' = s3"
      using Cons.prems False ins rec by (simp add: Let_def)
    have s2: "msgs s2 = msgs s @ [saved]" "snd saved = m\<lparr>msgType := ''direct''\<rparr>"
      "chats s2 = chats s" "users s2 = users s" "emitted s2 = emitted s" "conns s2 = conns s"
      using ins by (auto simp add: insert_message_def db_call_def Let_def)
    from Cons.IH [OF rec] obtain new where
      "msgs s3 = msgs s2 @ new"
      "\<forall>d\<in>set new. \<exists>m\<in>set ms. snd d = m\<lparr>msgType := ''direct''\<rparr>"
      "chats s3 = chats s2" "users s3 = users s2" "emitted s3 = emitted s2" "conns s3 = conns s2"
      by blast
    then show ?thesis
      using s' s2 by (intro exI [of _ "saved # new"]) auto
  qed
qed

lemma saveChat_frame:
  assumes "saveChat fl p s = (r, s1)"
  shows "emitted s1 = emitted s \<and> conns s1 = conns s \<and> users s1 = users s"
proof -
  obtain rs s0 where seeds:
    "(case cp_messages p of None \<Rightarrow> ([], s) | Some ms \<Rightarrow> save_seeds fl 0 ms s) = (rs, s0)"
    by (cases "case cp_messages p of None \<Rightarrow> ([], s) | Some ms \<Rightarrow> save_seeds fl 0 ms s")
  have "emitted s0 = emitted s \<and> conns s0 = conns s \<and> users s0 = users s"
    using seeds save_seeds_any [of fl 0 _ s rs s0] by (cases "cp_messages p") auto
  then show ?thesis
    using assms seeds
    by (auto simp add: saveChat_def insert_chat_def db_call_def Let_def
        split: outcome.splits if_splits)
qed

text \<open>When the driver accepts every \<^verbatim>\<open>save()\<close>, all seed messages are stored, in order.\<close>

lemma save_seeds_store:
  "save_seeds fl i ms s = (rs, s') \<Longrightarrow>
   \<forall>j<length ms. \<not> fl (MessageSave (i + j)) \<Longrightarrow>
   \<exists>new. msgs s' = msgs s @ new \<and> map snd new = map (\<lambda>m. m\<lparr>msgType := ''direct''\<rparr>) ms \<and>
         rs = map Returns (map fst new) \<and> chats s' = chats s"
proof (induction ms arbitrary: i s rs s')
  case Nil
  then show ?case by simp
next
  case (Cons m ms)
  have nf: "\<not> fl (MessageSave i)"
    using Cons.prems(2) by force
  obtain saved s2 where ins:
    "insert_message (m\<lparr>msgType := ''direct''\<rparr>) (db_call (MessageSave i) s) = (saved, s2)"
    by (cases "insert_message (m\<lparr>msgType := ''direct''\<rparr>) (db_call (MessageSave i) s)")
  obtain rs' s3 where rec: "save_seeds fl (Suc i) ms s2 = (rs', s3)"
    by (cases "save_seeds fl (Suc i) ms s2")
  have res: "rs = Returns (fst saved) # rs'" "s' = s3"
    using Cons.prems(1) nf ins rec by (simp_all add: Let_def)
  have "\<forall>j<length ms. \<not> fl (MessageSave (Suc i + j))"
    using Cons.prems(2) by force
  from Cons.IH [OF rec this] obtain new where new:
    "msgs s3 = msgs s2 @ new" "map snd new = map (\<lambda>m. m\<lparr>msgType := ''direct''\<rparr>) ms"
    "rs' = map Returns (map fst new)" "chats s3 = chats s2"
    by blast
  have s2: "msgs s2 = msgs s @ [saved]" "snd saved = m\<lparr>msgType := ''direct''\<rparr>"
    "chats s2 = chats s"
    using ins by (auto simp add: insert_message_def db_call_def Let_def)
  show ?case
    using res new s2 by (intro exI [of _ "saved # new"]) simp
qed

subsection \<open>Status codes and events of the other routes\<close>

text \<open>
  Of the routes, only \<open>getChatRoute\<close> answers 404 for a chat that does not exist; the
  add-participant route, like the add-message route, answers 500.
\<close>

lemma get_chat_route_missing_404:
  "\<not> fails e ChatFindById \<Longrightarrow> castObjectId (cast_other e) chatId = Some cid \<Longrightarrow>
   find (\<lambda>c. chat_id c = cid) (chats s) = None \<Longrightarrow>
   fst (getChatRoute e chatId s) = Responds 404 (ErrorBody ''Chat not found'')"
  by (simp add: getChatRoute_def getChat_def db_call_def Let_def)

lemma add_participant_route_missing_500:
  "isAddParticipantRequestValid e req \<Longrightarrow> \<not> fails e ChatFindByIdAndUpdate \<Longrightarrow>
   castObjectId (cast_other e) (ap_chatId req) = Some cid \<Longrightarrow>
   castObjectId (cast_other e) (str_of (ap_participant req)) = Some uid \<Longrightarrow>
   find (\<lambda>c. chat_id c = cid) (chats s) = None \<Longrightarrow>
   fst (addParticipantToChatRoute e req s) = Responds 500 (ErrorBody ''Chat not found'')"
  by (simp add: addParticipantToChatRoute_def addParticipantToChat_def db_call_def Let_def)

text \<open>A created chat is announced by one \<^verbatim>\<open>chatUpdate\<close> event of type \<^verbatim>\<open>created\<close>, to everyone.\<close>

lemma create_chat_success_event:
  assumes run: "createChatRoute e req s = (Responds 201 b, s')"
  shows "\<exists>populated.
           b = PopulatedBody populated \<and>
           emitted s' = emitted s @
             [\<lparr>ev_to = map fst (conns s), ev_name = ''chatUpdate'',
               ev_data = \<lparr>upd_chat = populated, upd_type = ''created''\<rparr>\<rparr>]"
proof -
  have valid: "isCreateChatRequestValid e req = Returns True"
    using run by (auto simp add: createChatRoute_def split: outcome.splits if_splits)
  obtain r s1 where sc: "saveChat (create_fails e req) (payload_of e req) s = (r, s1)"
    by (cases "saveChat (create_fails e req) (payload_of e req) s")
  note fr = saveChat_frame [OF sc]
  obtain c where r: "r = Doc c"
    using run valid sc by (cases r) (auto simp add: createChatRoute_def)
  obtain populated where pop: "findByIdPopulate e s1 (chat_id c) = Returns populated"
    using run valid sc r
    by (cases "findByIdPopulate e s1 (chat_id c)") (auto simp add: createChatRoute_def)
  have "b = PopulatedBody populated"
    "s' = socket_emit ''chatUpdate'' \<lparr>upd_chat = populated, upd_type = ''created''\<rparr> s1"
    using run valid sc r pop by (auto simp add: createChatRoute_def)
  then show ?thesis
    using fr by (simp add: socket_emit_def)
qed

section \<open>The claims\<close>

text \<open>
  C4. Creating a chat with seed messages stores each seed message before the chat
  document is created, and nothing removes them afterwards. When the driver accepts the
  saves, the message collection has grown by exactly the seed messages (tagged
  \<^verbatim>\<open>direct\<close>) whatever \<open>saveChat\<close> returns: if it returns an error (participants not all
  found, the user query or the chat write rejected) the chat collection is unchanged and
  the new message records stay; if it returns the chat, that chat was appended after them
  and refers to their identifiers.
\<close>

theorem save_chat_seed_messages_remain:
  assumes ms: "cp_messages p = Some ms"
    and ok: "\<forall>i<length ms. \<not> fl (MessageSave i)"
    and run: "saveChat fl p s = (r, s')"
  shows "\<exists>new. msgs s' = msgs s @ new \<and>
               map snd new = map (\<lambda>m. m\<lparr>msgType := ''direct''\<rparr>) ms \<and>
               (case r of
                  Err m \<Rightarrow> chats s' = chats s
                | Doc c \<Rightarrow> chats s' = chats s @ [c] \<and> messages c = map fst new)"
proof -
  obtain rs s1 where seeds: "save_seeds fl 0 ms s = (rs, s1)"
    by (cases "save_seeds fl 0 ms s")
  from save_seeds_store [OF seeds] ok obtain new where new:
    "msgs s1 = msgs s @ new" "map snd new = map (\<lambda>m. m\<lparr>msgType := ''direct''\<rparr>) ms"
    "rs = map Returns (map fst new)" "chats s1 = chats s"
    by auto
  have pa: "promise_all rs = Returns (map fst new)"
    unfolding new(3) by (rule promise_all_map_Returns)
  have "msgs s' = msgs s1 \<and>
        (case r of Err m \<Rightarrow> chats s' = chats s1
         | Doc c \<Rightarrow> chats s' = chats s1 @ [c] \<and> messages c = map fst new)"
    using run ms seeds pa
    by (auto simp add: saveChat_def insert_chat_def db_call_def Let_def split: if_splits)
  then show ?thesis
    using new by (intro exI [of _ new]) (auto split: response.splits)
qed

theorem save_chat_seed_messages_remain_witness:
  "fst (saveChat (\<lambda>opn. False) payload_unknown_user demo_state) = Err ''Some users not found'' \<and>
   (\<exists>new. msgs (snd (saveChat (\<lambda>opn. False) payload_unknown_user demo_state)) =
            msgs demo_state @ new \<and>
          map snd new = [\<lparr>msg = ''hi'', msgFrom = ''alice'', msgDateTime = None,
                          msgType = ''direct''\<rparr>]) \<and>
   chats (snd (saveChat (\<lambda>opn. False) payload_unknown_user demo_state)) = chats demo_state"
proof -
  let ?run = "saveChat (\<lambda>opn. False) payload_unknown_user demo_state"
  have h1: "cp_messages payload_unknown_user =
              Some [\<lparr>msg = ''hi'', msgFrom = ''alice'', msgDateTime = None, msgType = []\<rparr>]"
    by (simp add: payload_unknown_user_def)
  have h2: "\<forall>i<length [\<lparr>msg = ''hi'', msgFrom = ''alice'', msgDateTime = None, msgType = []\<rparr>].
              \<not> (\<lambda>opn. False) (MessageSave i)"
    by simp
  have h3: "?run = (fst ?run, snd ?run)"
    by simp
  have r: "fst ?run = Err ''Some users not found''"
    by code_simp
  show ?thesis
    using save_chat_seed_messages_remain [OF h1 h2 h3] r by auto
qed

text \<open>
  C5. Listing the chats of a participant is all or nothing: when hydration of one chat of
  the result set does not yield a hydrated chat (\<open>populateDocument\<close> rejects, or returns an
  \<^verbatim>\<open>{ error }\<close> object or \<^verbatim>\<open>null\<close>), the route answers with status 500 and the body is not a
  list of chats.
\<close>

theorem get_chats_hydration_failure_500:
  assumes q: "getChatsByParticipants (fails e) [uname] s = (found, s1)"
    and c: "c \<in> set found"
    and bad: "\<forall>h. populateDocument e s1 (chat_id c) \<noteq> Returns (Hydrated h)"
  shows "\<exists>b. fst (getChatsByUserRoute e uname s) = Responds 500 b \<and> (\<forall>ps. b \<noteq> ListBody ps)"
proof (cases "promise_all (map (\<lambda>c. populateDocument e s1 (chat_id c)) found)")
  case Throws
  then show ?thesis
    using q by (simp add: getChatsByUserRoute_def)
next
  case (Returns ps)
  have "map (\<lambda>c. populateDocument e s1 (chat_id c)) found = map Returns ps"
    using Returns by (rule promise_all_Returns)
  then have "populateDocument e s1 (chat_id c) \<in> set (map Returns ps)"
    using c by (metis image_eqI list.set_map)
  then obtain p where p: "p \<in> set ps" "populateDocument e s1 (chat_id c) = Returns p"
    by auto
  have "some_error ps \<noteq> Returns False"
    using some_error_False [of ps p] p bad by auto
  then show ?thesis
    using q Returns by (cases "some_error ps") (auto simp add: getChatsByUserRoute_def)
qed

theorem get_chats_hydration_failure_500_witness:
  "\<exists>b. fst (getChatsByUserRoute env_populate_rejects ''bob'' demo_state) = Responds 500 b \<and>
       (\<forall>ps. b \<noteq> ListBody ps)"
proof -
  let ?s1 = "db_call ChatFind (db_call UserFind demo_state)"
  have h1: "getChatsByParticipants (fails env_populate_rejects) [''bob''] demo_state =
              ([chat_ab, chat_bc], ?s1)"
    by code_simp
  have h2: "chat_bc \<in> set [chat_ab, chat_bc]"
    by simp
  have "populateDocument env_populate_rejects ?s1 (chat_id chat_bc) = Throws"
    by code_simp
  then have h3: "\<forall>h. populateDocument env_populate_rejects ?s1 (chat_id chat_bc) \<noteq>
                     Returns (Hydrated h)"
    by simp
  show ?thesis
    by (rule get_chats_hydration_failure_500 [OF h1 h2 h3])
qed

text \<open>
  C6. When the store answers, the chats found for a participant are exactly the stored
  chats whose participant array contains the identifier the username resolves to: none
  that lacks it, all that have it (in the order of the collection).
\<close>

theorem get_chats_by_participant_exact:
  assumes "\<not> fl UserFind" and "\<not> fl ChatFind"
    and "filter (\<lambda>x. username x = uname) (users s) = [u]"
  shows "fst (getChatsByParticipants fl [uname] s) =
         filter (\<lambda>c. user_id u \<in> set (participants c)) (chats s)"
  using assms by (simp add: getChatsByParticipants_def db_call_def Let_def matches_all_single)

theorem get_chats_by_participant_exact_witness:
  "fst (getChatsByParticipants (\<lambda>opn. False) [''alice''] demo_state) = [chat_ab] \<and>
   user_id alice \<in> set (participants chat_ab) \<and>
   user_id alice \<notin> set (participants chat_bc)"
proof -
  have h: "filter (\<lambda>x. username x = ''alice'') (users demo_state) = [alice]"
    by (simp add: demo_state_def alice_def bob_def carol_def)
  have "filter (\<lambda>c. user_id alice \<in> set (participants c)) (chats demo_state) = [chat_ab]"
    by (simp add: demo_state_def alice_def chat_ab_def chat_bc_def bob_def carol_def)
  moreover have "user_id alice \<in> set (participants chat_ab)"
    "user_id alice \<notin> set (participants chat_bc)"
    by (simp_all add: alice_def chat_ab_def chat_bc_def bob_def carol_def)
  ultimately show ?thesis
    using get_chats_by_participant_exact [of "\<lambda>opn. False", OF _ _ h] by simp
qed

text \<open>
  C7. Adding a participant is idempotent. On an existing chat, with the driver accepting
  the update, the first call returns the chat with the identifier in its participant
  array; a second call with the same identifier (in whatever spelling the cast reads as
  that identifier) returns the same chat, leaves the chat collection as the first call
  left it, and so leaves the size of the participant array unchanged.
\<close>

theorem add_participant_twice:
  assumes chat1: "castObjectId other chatId = Some cid"
    and chat2: "castObjectId other chatId' = Some cid"
    and user1: "castObjectId other userId = Some uid"
    and user2: "castObjectId other userId' = Some uid"
    and found: "find (\<lambda>c. chat_id c = cid) (chats s) = Some c"
    and accepted: "\<not> fl ChatFindByIdAndUpdate"
  shows "\<exists>c1 s1 s2.
           addParticipantToChat fl other chatId userId s = (Doc c1, s1) \<and>
           addParticipantToChat fl other chatId' userId' s1 = (Doc c1, s2) \<and>
           chats s2 = chats s1 \<and>
           uid \<in> set (participants c1) \<and>
           length (participants c1) =
             length (participants c) + (if uid \<in> set (participants c) then 0 else 1)"
proof -
  let ?P = "\<lambda>c. chat_id c = cid"
  let ?f = "addToSet_participant uid"
  let ?s1 = "(db_call ChatFindByIdAndUpdate s)\<lparr>chats := update_first ?P ?f (chats s)\<rparr>"
  let ?s2 = "(db_call ChatFindByIdAndUpdate ?s1)\<lparr>chats := update_first ?P ?f (chats ?s1)\<rparr>"
  have idc: "chat_id c = cid"
    using found find_Some_holds [of ?P "chats s" c] by simp
  have first: "addParticipantToChat fl other chatId userId s = (Doc (?f c), ?s1)"
    using chat1 user1 found accepted by (simp add: addParticipantToChat_def db_call_def)
  have found1: "find ?P (chats ?s1) = Some (?f c)"
    using find_update_first [OF found, of ?f] idc by (simp add: addToSet_chat_id)
  have same: "update_first ?P ?f (chats ?s1) = chats ?s1"
    using update_first_twice [OF found, of ?f] idc
    by (simp add: addToSet_chat_id addToSet_idem)
  have second: "addParticipantToChat fl other chatId' userId' ?s1 = (Doc (?f c), ?s2)"
    using chat2 user2 accepted found1
    by (simp add: addParticipantToChat_def db_call_def addToSet_idem)
  have unchanged: "chats ?s2 = chats ?s1"
    using same by simp
  have len: "uid \<in> set (participants (?f c)) \<and>
             length (participants (?f c)) =
             length (participants c) + (if uid \<in> set (participants c) then 0 else 1)"
    by (simp add: addToSet_participant_def)
  show ?thesis
    using first second unchanged len by blast
qed

text \<open>
  Two instances on the first chat, which holds alice and bob: carol is added once and the
  array has three entries after either call; alice, given in upper case, is not added at
  all and the array keeps its two entries.
\<close>

theorem add_participant_twice_witness:
  "(\<exists>c1 s1 s2.
      addParticipantToChat (\<lambda>opn. False) (\<lambda>x. None) ''111111111111111111111111''
        ''cccccccccccccccccccccccc'' demo_state = (Doc c1, s1) \<and>
      addParticipantToChat (\<lambda>opn. False) (\<lambda>x. None) ''111111111111111111111111''
        ''CCCCCCCCCCCCCCCCCCCCCCCC'' s1 = (Doc c1, s2) \<and>
      chats s2 = chats s1 \<and>
      user_id carol \<in> set (participants c1) \<and>
      length (participants c1) = 3) \<and>
   (\<exists>c1 s1 s2.
      addParticipantToChat (\<lambda>opn. False) (\<lambda>x. None) ''111111111111111111111111''
        ''AAAAAAAAAAAAAAAAAAAAAAAA'' demo_state = (Doc c1, s1) \<and>
      addParticipantToChat (\<lambda>opn. False) (\<lambda>x. None) ''111111111111111111111111''
        ''AAAAAAAAAAAAAAAAAAAAAAAA'' s1 = (Doc c1, s2) \<and>
      chats s2 = chats s1 \<and>
      length (participants c1) = 2)"
proof -
  have chat: "castObjectId (\<lambda>x. None) ''111111111111111111111111'' = Some (chat_id chat_ab)"
    by code_simp
  have c_lower: "castObjectId (\<lambda>x. None) ''cccccccccccccccccccccccc'' = Some (user_id carol)"
    by code_simp
  have c_upper: "castObjectId (\<lambda>x. None) ''CCCCCCCCCCCCCCCCCCCCCCCC'' = Some (user_id carol)"
    by code_simp
  have a_upper: "castObjectId (\<lambda>x. None) ''AAAAAAAAAAAAAAAAAAAAAAAA'' = Some (user_id alice)"
    by code_simp
  have found: "find (\<lambda>c. chat_id c = chat_id chat_ab) (chats demo_state) = Some chat_ab"
    by (simp add: demo_state_def)
  have accepted: "\<not> (\<lambda>opn. False) ChatFindByIdAndUpdate"
    by simp
  have n_carol: "length (participants chat_ab) +
             (if user_id carol \<in> set (participants chat_ab) then 0 else 1) = 3"
    by (simp add: chat_ab_def alice_def bob_def carol_def)
  have n_alice: "length (participants chat_ab) +
             (if user_id alice \<in> set (participants chat_ab) then 0 else 1) = 2"
    by (simp add: chat_ab_def alice_def bob_def carol_def)
  have one: "\<exists>c1 s1 s2.
      addParticipantToChat (\<lambda>opn. False) (\<lambda>x. None) ''111111111111111111111111''
        ''cccccccccccccccccccccccc'' demo_state = (Doc c1, s1) \<and>
      addParticipantToChat (\<lambda>opn. False) (\<lambda>x. None) ''111111111111111111111111''
        ''CCCCCCCCCCCCCCCCCCCCCCCC'' s1 = (Doc c1, s2) \<and>
      chats s2 = chats s1 \<and>
      user_id carol \<in> set (participants c1) \<and>
      length (participants c1) = 3"
    using add_participant_twice [OF chat chat c_lower c_upper found accepted] n_carol by auto
  have two: "\<exists>c1 s1 s2.
      addParticipantToChat (\<lambda>opn. False) (\<lambda>x. None) ''111111111111111111111111''
        ''AAAAAAAAAAAAAAAAAAAAAAAA'' demo_state = (Doc c1, s1) \<and>
      addParticipantToChat (\<lambda>opn. False) (\<lambda>x. None) ''111111111111111111111111''
        ''AAAAAAAAAAAAAAAAAAAAAAAA'' s1 = (Doc c1, s2) \<and>
      chats s2 = chats s1 \<and>
      length (participants c1) = 2"
    using add_participant_twice [OF chat chat a_upper a_upper found accepted] n_alice by auto
  show ?thesis
    using one two by (rule conjI)
qed

text \<open>
  C8. A creation request whose \<^verbatim>\<open>participants\<close> field is not an array, or is an array of
  fewer than two entries, is answered with status 400, and the world is exactly as before:
  no message record, no chat record, no driver call (so no identity lookup), no event.
\<close>

theorem create_chat_too_few_participants:
  assumes "\<forall>ps. cr_participants req = JArr ps \<longrightarrow> length ps < 2"
  shows "createChatRoute e req s =
           (Responds 400 (ErrorBody ''Invalid chat creation request''), s)"
  using assms
  by (simp add: createChatRoute_def isCreateChatRequestValid_def split: jsval.splits)

theorem create_chat_too_few_participants_witness:
  "createChatRoute demo_env
     \<lparr>cr_participants = JArr [JStr ''alice''],
      cr_messages = JArr [JObj [(''msg'', JStr ''hi''), (''msgFrom'', JStr ''alice'')]]\<rparr>
     demo_state =
   (Responds 400 (ErrorBody ''Invalid chat creation request''), demo_state)"
  using create_chat_too_few_participants
    [of "\<lparr>cr_participants = JArr [JStr ''alice''],
          cr_messages = JArr [JObj [(''msg'', JStr ''hi''), (''msgFrom'', JStr ''alice'')]]\<rparr>"
        demo_env demo_state]
  by simp

text \<open>
  C9. The add-participant route emits no realtime event, whether it answers 400, 500 or
  200: the list of emitted events and the socket connections are as they were.
\<close>

theorem add_participant_emits_nothing:
  "emitted (snd (addParticipantToChatRoute e req s)) = emitted s \<and>
   conns (snd (addParticipantToChatRoute e req s)) = conns s"
  by (simp add: addParticipantToChatRoute_def addParticipantToChat_def db_call_def Let_def
        split: option.splits response.splits outcome.splits)

theorem add_participant_emits_nothing_witness:
  "status_of (fst (addParticipantToChatRoute demo_env add_carol_to_chat_ab demo_state)) = Some 200 \<and>
   emitted (snd (addParticipantToChatRoute demo_env add_carol_to_chat_ab demo_state)) = []"
proof -
  have "status_of (fst (addParticipantToChatRoute demo_env add_carol_to_chat_ab demo_state)) =
          Some 200"
    by code_simp
  moreover have "emitted demo_state = []"
    by (simp add: demo_state_def)
  ultimately show ?thesis
    using add_participant_emits_nothing [of demo_env add_carol_to_chat_ab demo_state]
    by simp
qed

text \<open>
  C10. When the user query or the chat query of \<open>getChatsByParticipants\<close> rejects, the
  service reports no error: it returns the empty list, and the route answers 200 with an
  empty list. That reply is the one given whenever the query finds no chat, so a caller
  cannot tell the failure from a participant without chats.
\<close>

theorem get_chats_store_failure_empty_200:
  assumes "fails e UserFind \<or> fails e ChatFind"
  shows "fst (getChatsByParticipants (fails e) [uname] s) = [] \<and>
         fst (getChatsByUserRoute e uname s) = Responds 200 (ListBody []) \<and>
         (\<forall>e' uname' s'. fst (getChatsByParticipants (fails e') [uname'] s') = [] \<longrightarrow>
            fst (getChatsByUserRoute e' uname' s') = fst (getChatsByUserRoute e uname s))"
  using assms
  by (auto simp add: getChatsByUserRoute_def getChatsByParticipants_def db_call_def Let_def
      split: prod.splits)

theorem get_chats_store_failure_empty_200_witness:
  "fst (getChatsByParticipants (fails env_find_rejects) [''bob''] demo_state) = [] \<and>
   fst (getChatsByUserRoute env_find_rejects ''bob'' demo_state) = Responds 200 (ListBody []) \<and>
   fst (getChatsByUserRoute demo_env ''zed'' demo_state) =
     fst (getChatsByUserRoute env_find_rejects ''bob'' demo_state)"
proof -
  have h: "fails env_find_rejects UserFind \<or> fails env_find_rejects ChatFind"
    by (simp add: env_find_rejects_def)
  have none: "fst (getChatsByParticipants (fails demo_env) [''zed''] demo_state) = []"
    by code_simp
  show ?thesis
    using get_chats_store_failure_empty_200 [OF h, of "''bob''" demo_state] none by blast
qed

text \<open>
  C1 (as amended). A valid add-message request whose chat identifier is the identifier of
  no chat is answered with status 500 and an \<^verbatim>\<open>{ error }\<close> body, whether or not the sender
  is a known user. The message is created first. When it cannot be created (the user
  lookup rejects, no user has the sender's name, or the save rejects) the error is
  \<^verbatim>\<open>Message creation failed or ID missing\<close> and nothing is stored. Otherwise the message is
  stored and stays, and the error is the one of \<open>addMessageToChat\<close>:
  \<^verbatim>\<open>Failed to add message to chat\<close> when the update rejects or the chat identifier cannot
  be cast, \<^verbatim>\<open>Chat not found\<close> in every other case. No chat changes and no event is emitted.
\<close>

theorem add_message_missing_chat_500:
  assumes valid: "isAddMessageRequestValid e req"
    and missing: "\<forall>cid. castObjectId (cast_other e) (am_chatId req) = Some cid \<longrightarrow>
                    find (\<lambda>c. chat_id c = cid) (chats s) = None"
  shows "fst (addMessageToChatRoute e req s) =
           Responds 500
             (ErrorBody
               (if fails e UserFindOne \<or>
                   find (\<lambda>u. username u = str_of (am_msgFrom req)) (users s) = None \<or>
                   fails e (MessageSave 0)
                then ''Message creation failed or ID missing''
                else if fails e ChatFindByIdAndUpdate \<or>
                        castObjectId (cast_other e) (am_chatId req) = None
                then ''Failed to add message to chat''
                else ''Chat not found'')) \<and>
         msgs (snd (addMessageToChatRoute e req s)) =
           (if fails e UserFindOne \<or>
               find (\<lambda>u. username u = str_of (am_msgFrom req)) (users s) = None \<or>
               fails e (MessageSave 0)
            then msgs s
            else msgs s @
              [(new_oid s,
                \<lparr>msg = str_of (am_msg req), msgFrom = str_of (am_msgFrom req),
                 msgDateTime = (if truthy (am_msgDateTime req)
                                then date_value e (am_msgDateTime req) else Some (now e)),
                 msgType = ''direct''\<rparr>)]) \<and>
         chats (snd (addMessageToChatRoute e req s)) = chats s \<and>
         emitted (snd (addMessageToChatRoute e req s)) = emitted s"
proof -
  let ?payload = "\<lparr>msg = str_of (am_msg req), msgFrom = str_of (am_msgFrom req),
      msgDateTime = (if truthy (am_msgDateTime req)
                     then date_value e (am_msgDateTime req) else Some (now e)),
      msgType = ''direct''\<rparr>"
  let ?uncreated = "fails e UserFindOne \<or>
      find (\<lambda>u. username u = str_of (am_msgFrom req)) (users s) = None \<or>
      fails e (MessageSave 0)"
  obtain r s1 where cm: "createMessage (fails e) ?payload s = (r, s1)"
    by (cases "createMessage (fails e) ?payload s")
  note fr = createMessage_frame [OF cm]
  show ?thesis
  proof (cases ?uncreated)
    case True
    then obtain x where "r = Err x" "msgs s1 = msgs s"
      using createMessage_not_created [of "fails e" ?payload s] cm by auto
    then show ?thesis
      using valid cm fr True by (simp add: addMessageToChatRoute_def)
  next
    case False
    then have r: "r = Doc (new_oid s, ?payload)"
      using createMessage_created [of "fails e" ?payload s] cm by auto
    have stored: "msgs s1 = msgs s @ [(new_oid s, ?payload)]"
      using createMessage_Doc [OF cm [unfolded r]] by simp
    have gone: "\<forall>cid. castObjectId (cast_other e) (am_chatId req) = Some cid \<longrightarrow>
                  find (\<lambda>c. chat_id c = cid) (chats s1) = None"
      using missing fr by simp
    have castable: "castObjectId (cast_other e) (oid_string (new_oid s)) \<noteq> None"
      by (simp add: cast_new_oid)
    from addMessageToChat_missing [OF gone castable, of "fails e"]
    obtain s2 where am:
      "addMessageToChat (fails e) (cast_other e) (am_chatId req) (oid_string (new_oid s)) s1 =
         (Err (if fails e ChatFindByIdAndUpdate \<or>
                  castObjectId (cast_other e) (am_chatId req) = None
               then ''Failed to add message to chat'' else ''Chat not found''), s2)"
      "chats s2 = chats s1" "emitted s2 = emitted s1" "msgs s2 = msgs s1"
      by blast
    have route: "addMessageToChatRoute e req s =
        (Responds 500
           (ErrorBody (if fails e ChatFindByIdAndUpdate \<or>
                          castObjectId (cast_other e) (am_chatId req) = None
                       then ''Failed to add message to chat'' else ''Chat not found'')), s2)"
      using valid cm r am(1) by (simp add: addMessageToChatRoute_def)
    show ?thesis
      unfolding route using False am(2-4) stored fr by simp
  qed
qed

text \<open>
  Two instances on a well-formed identifier of no chat: from bob, a user, the message is
  stored and the answer is \<^verbatim>\<open>Chat not found\<close>; from a stranger nothing is stored and the
  answer is \<^verbatim>\<open>Message creation failed or ID missing\<close>. Both have status 500.
\<close>

theorem add_message_missing_chat_500_witness:
  "fst (addMessageToChatRoute demo_env msg_to_missing_chat demo_state) =
     Responds 500 (ErrorBody ''Chat not found'') \<and>
   length (msgs (snd (addMessageToChatRoute demo_env msg_to_missing_chat demo_state))) = 1 \<and>
   chats (snd (addMessageToChatRoute demo_env msg_to_missing_chat demo_state)) =
     [chat_ab, chat_bc] \<and>
   fst (addMessageToChatRoute demo_env msg_from_stranger demo_state) =
     Responds 500 (ErrorBody ''Message creation failed or ID missing'') \<and>
   msgs (snd (addMessageToChatRoute demo_env msg_from_stranger demo_state)) = []"
proof -
  have v1: "isAddMessageRequestValid demo_env msg_to_missing_chat"
    by code_simp
  have v2: "isAddMessageRequestValid demo_env msg_from_stranger"
    by code_simp
  have cast1: "castObjectId (cast_other demo_env) (am_chatId msg_to_missing_chat) =
                 Some (ObjectId ''333333333333333333333333'')"
    by code_simp
  have cast2: "castObjectId (cast_other demo_env) (am_chatId msg_from_stranger) =
                 Some (ObjectId ''333333333333333333333333'')"
    by code_simp
  have none: "find (\<lambda>c. chat_id c = ObjectId ''333333333333333333333333'') (chats demo_state) =
                None"
    by code_simp
  have m1: "\<forall>cid. castObjectId (cast_other demo_env) (am_chatId msg_to_missing_chat) = Some cid \<longrightarrow>
              find (\<lambda>c. chat_id c = cid) (chats demo_state) = None"
    using cast1 none by simp
  have m2: "\<forall>cid. castObjectId (cast_other demo_env) (am_chatId msg_from_stranger) = Some cid \<longrightarrow>
              find (\<lambda>c. chat_id c = cid) (chats demo_state) = None"
    using cast2 none by simp
  have bob_known:
    "find (\<lambda>u. username u = str_of (am_msgFrom msg_to_missing_chat)) (users demo_state) = Some bob"
    by code_simp
  have stranger:
    "find (\<lambda>u. username u = str_of (am_msgFrom msg_from_stranger)) (users demo_state) = None"
    by code_simp
  have quiet: "\<not> fails demo_env UserFindOne" "\<not> fails demo_env (MessageSave 0)"
    "\<not> fails demo_env ChatFindByIdAndUpdate"
    by (simp_all add: demo_env_def)
  have st: "msgs demo_state = []" "chats demo_state = [chat_ab, chat_bc]"
    by (simp_all add: demo_state_def)
  have one: "fst (addMessageToChatRoute demo_env msg_to_missing_chat demo_state) =
     Responds 500 (ErrorBody ''Chat not found'') \<and>
   length (msgs (snd (addMessageToChatRoute demo_env msg_to_missing_chat demo_state))) = 1 \<and>
   chats (snd (addMessageToChatRoute demo_env msg_to_missing_chat demo_state)) =
     [chat_ab, chat_bc]"
    using add_message_missing_chat_500 [OF v1 m1] cast1 bob_known quiet st by simp
  have two: "fst (addMessageToChatRoute demo_env msg_from_stranger demo_state) =
     Responds 500 (ErrorBody ''Message creation failed or ID missing'') \<and>
   msgs (snd (addMessageToChatRoute demo_env msg_from_stranger demo_state)) = []"
    using add_message_missing_chat_500 [OF v2 m2] stranger st by simp
  show ?thesis
    using one two by simp
qed

text \<open>
  The specification has 404 here. With a known sender (bob) and a well-formed identifier
  of no chat, the route answers 500 with \<^verbatim>\<open>{ error: 'Chat not found' }\<close>.
\<close>

theorem add_message_missing_chat_not_404:
  "isAddMessageRequestValid demo_env msg_to_missing_chat \<and>
   castObjectId (cast_other demo_env) (am_chatId msg_to_missing_chat) =
     Some (ObjectId ''333333333333333333333333'') \<and>
   find (\<lambda>c. chat_id c = ObjectId ''333333333333333333333333'') (chats demo_state) = None \<and>
   fst (addMessageToChatRoute demo_env msg_to_missing_chat demo_state) =
     Responds 500 (ErrorBody ''Chat not found'') \<and>
   status_of (fst (addMessageToChatRoute demo_env msg_to_missing_chat demo_state)) \<noteq> Some 404"
  by code_simp




text \<open>
  C2 (as amended). What the stored records hold as references.
  \<^item> A chat created by \<open>saveChat\<close> has as participants the identifiers of the users found
    for the requested usernames, never the usernames.
  \<^item> A participant added by \<open>addParticipantToChat\<close> is the identifier that the string of
    the request is cast to.
  \<^item> Every message record \<open>saveChat\<close> adds is a seed message of the payload, tagged
    \<^verbatim>\<open>direct\<close>, with its sender field as the payload gave it.
  \<^item> The record \<open>createMessage\<close> adds has the fields it was given: its sender field is
    the username of the request, which was only checked to be the name of a user.
  \<^item> So the add-message route stores at most one record, and its sender field is the
    \<^verbatim>\<open>msgFrom\<close> of the request, the name of a user.
\<close>

theorem stored_references_as_given:
  "(saveChat fl p s = (Doc c, s1) \<longrightarrow>
      participants c =
        map user_id (filter (\<lambda>u. username u \<in> set (cp_participants p)) (users s)) \<and>
      chats s1 = chats s @ [c]) \<and>
   (saveChat fl p s = (r, s2) \<longrightarrow>
      (\<exists>new. msgs s2 = msgs s @ new \<and>
         (\<forall>d\<in>set new. \<exists>ms m. cp_messages p = Some ms \<and> m \<in> set ms \<and>
                          snd d = m\<lparr>msgType := ''direct''\<rparr>))) \<and>
   (createMessage fl m s = (Doc d, s3) \<longrightarrow>
      msgs s3 = msgs s @ [d] \<and> snd d = m \<and> msgFrom (snd d) \<in> username ` set (users s)) \<and>
   (addParticipantToChat fl other chatId userId s = (Doc c', s4) \<longrightarrow>
      (\<exists>cid uid c0. castObjectId other chatId = Some cid \<and>
            castObjectId other userId = Some uid \<and>
            find (\<lambda>x. chat_id x = cid) (chats s) = Some c0 \<and>
            c' = addToSet_participant uid c0 \<and>
            chats s4 = update_first (\<lambda>x. chat_id x = cid) (addToSet_participant uid) (chats s))) \<and>
   (addMessageToChatRoute e req s = (rp, s5) \<longrightarrow>
      msgs s5 = msgs s \<or>
      (\<exists>d. msgs s5 = msgs s @ [d] \<and>
           msgFrom (snd d) = str_of (am_msgFrom req) \<and>
           msgFrom (snd d) \<in> username ` set (users s)))"
proof (intro conjI impI)
  assume run: "saveChat fl p s = (Doc c, s1)"
  obtain rs s0 where seeds:
    "(case cp_messages p of None \<Rightarrow> ([], s) | Some ms \<Rightarrow> save_seeds fl 0 ms s) = (rs, s0)"
    by (cases "case cp_messages p of None \<Rightarrow> ([], s) | Some ms \<Rightarrow> save_seeds fl 0 ms s")
  have same: "users s0 = users s \<and> chats s0 = chats s"
    using seeds save_seeds_any [of fl 0 _ s rs s0] by (cases "cp_messages p") auto
  show "participants c =
          map user_id (filter (\<lambda>u. username u \<in> set (cp_participants p)) (users s))"
    using run seeds same
    by (auto simp add: saveChat_def insert_chat_def db_call_def Let_def
        split: outcome.splits if_splits)
  show "chats s1 = chats s @ [c]"
    using run seeds same
    by (auto simp add: saveChat_def insert_chat_def db_call_def Let_def
        split: outcome.splits if_splits)
next
  assume run: "saveChat fl p s = (r, s2)"
  obtain rs s0 where seeds:
    "(case cp_messages p of None \<Rightarrow> ([], s) | Some ms \<Rightarrow> save_seeds fl 0 ms s) = (rs, s0)"
    by (cases "case cp_messages p of None \<Rightarrow> ([], s) | Some ms \<Rightarrow> save_seeds fl 0 ms s")
  have kept: "msgs s2 = msgs s0"
    using run seeds
    by (auto simp add: saveChat_def insert_chat_def db_call_def Let_def
        split: outcome.splits if_splits)
  show "\<exists>new. msgs s2 = msgs s @ new \<and>
         (\<forall>d\<in>set new. \<exists>ms m. cp_messages p = Some ms \<and> m \<in> set ms \<and>
                          snd d = m\<lparr>msgType := ''direct''\<rparr>)"
  proof (cases "cp_messages p")
    case None
    then show ?thesis
      using seeds kept by (intro exI [of _ "[]"]) simp
  next
    case (Some ms)
    then have "save_seeds fl 0 ms s = (rs, s0)"
      using seeds by simp
    from save_seeds_any [OF this] obtain new where
      "msgs s0 = msgs s @ new" "\<forall>d\<in>set new. \<exists>m\<in>set ms. snd d = m\<lparr>msgType := ''direct''\<rparr>"
      by blast
    then show ?thesis
      using kept Some by (intro exI [of _ new]) auto
  qed
next
  assume run: "createMessage fl m s = (Doc d, s3)"
  then obtain u where u: "find (\<lambda>u. username u = msgFrom m) (users s) = Some u"
    by (auto simp add: createMessage_def db_call_def Let_def split: if_splits option.splits)
  have known: "msgFrom m \<in> username ` set (users s)"
    using find_Some_holds [OF u] by force
  have stored: "msgs s3 = msgs s @ [d] \<and> snd d = m"
    using createMessage_Doc [OF run] by simp
  show "msgs s3 = msgs s @ [d]"
    using stored by simp
  show "snd d = m"
    using stored by simp
  show "msgFrom (snd d) \<in> username ` set (users s)"
    using stored known by simp
next
  assume "addParticipantToChat fl other chatId userId s = (Doc c', s4)"
  then show "\<exists>cid uid c0. castObjectId other chatId = Some cid \<and>
            castObjectId other userId = Some uid \<and>
            find (\<lambda>x. chat_id x = cid) (chats s) = Some c0 \<and>
            c' = addToSet_participant uid c0 \<and>
            chats s4 = update_first (\<lambda>x. chat_id x = cid) (addToSet_participant uid) (chats s)"
    by (auto simp add: addParticipantToChat_def db_call_def Let_def
        split: if_splits option.splits)
next
  assume run: "addMessageToChatRoute e req s = (rp, s5)"
  let ?payload = "\<lparr>msg = str_of (am_msg req), msgFrom = str_of (am_msgFrom req),
      msgDateTime = (if truthy (am_msgDateTime req)
                     then date_value e (am_msgDateTime req) else Some (now e)),
      msgType = ''direct''\<rparr>"
  show "msgs s5 = msgs s \<or>
      (\<exists>d. msgs s5 = msgs s @ [d] \<and>
           msgFrom (snd d) = str_of (am_msgFrom req) \<and>
           msgFrom (snd d) \<in> username ` set (users s))"
  proof (cases "isAddMessageRequestValid e req")
    case False
    then show ?thesis
      using run by (simp add: addMessageToChatRoute_def)
  next
    case True
    obtain r s1 where cm: "createMessage (fails e) ?payload s = (r, s1)"
      by (cases "createMessage (fails e) ?payload s")
    show ?thesis
    proof (cases r)
      case (Err x)
      have "msgs s1 = msgs s"
        using createMessage_Err_msgs [OF cm [unfolded Err]] .
      then show ?thesis
        using run True cm Err by (auto simp add: addMessageToChatRoute_def)
    next
      case (Doc saved)
      note d1 = createMessage_Doc [OF cm [unfolded Doc]]
      then obtain u where u: "find (\<lambda>u. username u = str_of (am_msgFrom req)) (users s) = Some u"
        by auto
      have known: "str_of (am_msgFrom req) \<in> username ` set (users s)"
        using find_Some_holds [OF u] by force
      obtain v s2 where am:
        "addMessageToChat (fails e) (cast_other e) (am_chatId req) (oid_string (fst saved)) s1 =
           (v, s2)"
        by (cases "addMessageToChat (fails e) (cast_other e) (am_chatId req)
                     (oid_string (fst saved)) s1")
      have m2: "msgs s2 = msgs s1"
        using addMessageToChat_msgs [OF am] .
      have "msgs s5 = msgs s2"
        using run True cm Doc am
        by (auto simp add: addMessageToChatRoute_def socket_emit_def
            split: response.splits outcome.splits)
      then have "msgs s5 = msgs s @ [saved] \<and> msgFrom (snd saved) = str_of (am_msgFrom req)"
        using m2 d1 by simp
      then show ?thesis
        using known by auto
    qed
  qed
qed

theorem stored_references_as_given_witness:
  "(\<exists>c. fst (saveChat (\<lambda>opn. False) payload_alice_bob demo_state) = Doc c \<and>
        participants c = [user_id alice, user_id bob]) \<and>
   (\<exists>new. msgs (snd (saveChat (\<lambda>opn. False) payload_alice_bob demo_state)) = new \<and>
        msgFrom ` snd ` set new \<subseteq> {''alice''}) \<and>
   (\<exists>d. fst (createMessage (\<lambda>opn. False) message_from_bob demo_state) = Doc d \<and>
        msgFrom (snd d) = ''bob'' \<and> ''bob'' \<in> username ` set (users demo_state)) \<and>
   (\<exists>c'. fst (addParticipantToChat (\<lambda>opn. False) (\<lambda>x. None) ''111111111111111111111111''
              ''CCCCCCCCCCCCCCCCCCCCCCCC'' demo_state) = Doc c' \<and>
         participants c' = [user_id alice, user_id bob, user_id carol]) \<and>
   (\<exists>d. msgs (snd (addMessageToChatRoute demo_env msg_to_chat_ab demo_state)) = [d] \<and>
        msgFrom (snd d) = ''bob'')"
proof -
  let ?sc = "saveChat (\<lambda>opn. False) payload_alice_bob demo_state"
  let ?cm = "createMessage (\<lambda>opn. False) message_from_bob demo_state"
  let ?ap = "addParticipantToChat (\<lambda>opn. False) (\<lambda>x. None) ''111111111111111111111111''
               ''CCCCCCCCCCCCCCCCCCCCCCCC'' demo_state"
  let ?rt = "addMessageToChatRoute demo_env msg_to_chat_ab demo_state"
  have "case fst ?sc of Doc x \<Rightarrow> True | Err x \<Rightarrow> False"
    by code_simp
  then obtain c where c: "fst ?sc = Doc c"
    by (cases "fst ?sc") auto
  have "case fst ?cm of Doc x \<Rightarrow> True | Err x \<Rightarrow> False"
    by code_simp
  then obtain d where d: "fst ?cm = Doc d"
    by (cases "fst ?cm") auto
  have "case fst ?ap of Doc x \<Rightarrow> True | Err x \<Rightarrow> False"
    by code_simp
  then obtain c' where c': "fst ?ap = Doc c'"
    by (cases "fst ?ap") auto
  have h1: "?sc = (Doc c, snd ?sc)"
    using c by (metis prod.collapse)
  have h3: "?cm = (Doc d, snd ?cm)"
    using d by (metis prod.collapse)
  have h4: "?ap = (Doc c', snd ?ap)"
    using c' by (metis prod.collapse)
  have h5: "?rt = (fst ?rt, snd ?rt)"
    by simp
  note facts = stored_references_as_given
    [where fl = "\<lambda>opn. False" and p = payload_alice_bob and s = demo_state
       and c = c and ?s1.0 = "snd ?sc" and r = "Doc c" and ?s2.0 = "snd ?sc"
       and m = message_from_bob and d = d and ?s3.0 = "snd ?cm"
       and other = "\<lambda>x. None" and chatId = "''111111111111111111111111''"
       and userId = "''CCCCCCCCCCCCCCCCCCCCCCCC''" and c' = c' and ?s4.0 = "snd ?ap"
       and e = demo_env and req = msg_to_chat_ab and rp = "fst ?rt" and ?s5.0 = "snd ?rt"]
  have p1: "participants c = [user_id alice, user_id bob]"
    using facts h1 by (simp add: payload_alice_bob_def demo_state_def alice_def bob_def carol_def)
  obtain new where new: "msgs (snd ?sc) = msgs demo_state @ new"
    "\<forall>x\<in>set new. \<exists>ms m. cp_messages payload_alice_bob = Some ms \<and> m \<in> set ms \<and>
                     snd x = m\<lparr>msgType := ''direct''\<rparr>"
    using facts h1 by blast
  have p2: "msgFrom ` snd ` set (msgs (snd ?sc)) \<subseteq> {''alice''}"
    using new by (auto simp add: payload_alice_bob_def demo_state_def)
  have sent: "snd d = message_from_bob" "msgFrom (snd d) \<in> username ` set (users demo_state)"
    using facts h3 by blast+
  have "msgFrom message_from_bob = ''bob''"
    by (simp add: message_from_bob_def)
  then have p3: "msgFrom (snd d) = ''bob'' \<and> ''bob'' \<in> username ` set (users demo_state)"
    using sent by metis
  obtain cid uid c0 where c0:
    "castObjectId (\<lambda>x. None) ''111111111111111111111111'' = Some cid"
    "castObjectId (\<lambda>x. None) ''CCCCCCCCCCCCCCCCCCCCCCCC'' = Some uid"
    "find (\<lambda>x. chat_id x = cid) (chats demo_state) = Some c0"
    "c' = addToSet_participant uid c0"
    using facts h4 by blast
  have "castObjectId (\<lambda>x. None) ''111111111111111111111111'' = Some (chat_id chat_ab)"
    "castObjectId (\<lambda>x. None) ''CCCCCCCCCCCCCCCCCCCCCCCC'' = Some (user_id carol)"
    by code_simp+
  then have ids: "cid = chat_id chat_ab" "uid = user_id carol"
    using c0(1,2) by simp_all
  have "c0 = chat_ab"
    using c0(3) ids by (simp add: demo_state_def)
  then have p4: "participants c' = [user_id alice, user_id bob, user_id carol]"
    using c0(4) ids
    by (simp add: addToSet_participant_def chat_ab_def alice_def bob_def carol_def)
  have grown: "length (msgs (snd ?rt)) = 1"
    by code_simp
  have "msgs demo_state = []" "str_of (am_msgFrom msg_to_chat_ab) = ''bob''"
    by (simp_all add: demo_state_def msg_to_chat_ab_def str_of_def)
  then have p5: "\<exists>d. msgs (snd ?rt) = [d] \<and> msgFrom (snd d) = ''bob''"
    using facts h5 grown by auto
  show ?thesis
    using c p1 p2 d p3 c' p4 p5 by blast
qed

text \<open>
  The specification has every stored sender reference a resolved identifier. After bob
  adds a message to the first chat, the one message record in the store has the sender
  field \<^verbatim>\<open>bob\<close>: a username, and not the string of the identifier of any user.
\<close>

theorem message_sender_is_username:
  "status_of (fst (addMessageToChatRoute demo_env msg_to_chat_ab demo_state)) = Some 200 \<and>
   map (\<lambda>d. msgFrom (snd d))
     (msgs (snd (addMessageToChatRoute demo_env msg_to_chat_ab demo_state))) = [''bob''] \<and>
   ''bob'' \<in> username ` set (users demo_state) \<and>
   ''bob'' \<notin> (\<lambda>u. oid_string (user_id u)) ` set (users demo_state)"
  by code_simp

end
